theory Spec2Isabelle
  imports Main "HOL-Library.AList"
begin

section \<open>Values, exceptions and what the page shows\<close>

text \<open>
  The module \<^verbatim>\<open>streamlit_post_processing.py\<close> edits a configuration object and a
  post-processing object that live in the Streamlit session state. Exceptions are
  values: every operation returns the session it leaves behind together with the
  exception that escapes it, if any. What the page shows through \<^verbatim>\<open>st.exception\<close> and
  \<^verbatim>\<open>st.warning\<close> is a log kept in the session.
\<close>

datatype exn = ValueError | NameError | IndexError | KeyError | Raised string

datatype ui_msg = StException exn | StWarning string

text \<open>Values of the configuration document: None, strings, ints and dicts (in insertion order).\<close>

datatype pyval = PNone | PStr string | PInt int | PDict "(string \<times> pyval) list"

text \<open>A filter clause is a Python list of strings: [column, operator, value], or [column, value] for a series.\<close>

type_synonym clause = "string list"

text \<open>Python truthiness of an optional string, an optional list and a document value.\<close>

fun truthy_str :: "string option \<Rightarrow> bool" where
  "truthy_str None = False"
| "truthy_str (Some s) = (s \<noteq> [])"

fun truthy_list :: "'a list option \<Rightarrow> bool" where
  "truthy_list None = False"
| "truthy_list (Some xs) = (xs \<noteq> [])"

fun truthy :: "pyval \<Rightarrow> bool" where
  "truthy PNone = False"
| "truthy (PStr s) = (s \<noteq> [])"
| "truthy (PInt n) = (n \<noteq> 0)"
| "truthy (PDict d) = (d \<noteq> [])"

fun of_opt :: "string option \<Rightarrow> pyval" where
  "of_opt None = PNone"
| "of_opt (Some s) = PStr s"

text \<open>\<^verbatim>\<open>d[k] = v\<close> on a dict and \<^verbatim>\<open>d.get(k)\<close>.\<close>

definition dict_set :: "string \<Rightarrow> 'a \<Rightarrow> (string \<times> 'a) list \<Rightarrow> (string \<times> 'a) list" where
  "dict_set k v d = AList.update k v d"

definition dict_get :: "(string \<times> 'a) list \<Rightarrow> string \<Rightarrow> 'a option" where
  "dict_get d k = map_of d k"

text \<open>\<^verbatim>\<open>xs.index(x)\<close>: the first position holding a value equal to x, ValueError when there is none.\<close>

definition index_of :: "'a list \<Rightarrow> 'a \<Rightarrow> nat" where
  "index_of xs x = length (takeWhile (\<lambda>y. y \<noteq> x) xs)"

definition list_index :: "'a list \<Rightarrow> 'a \<Rightarrow> exn + nat" where
  "list_index xs x = (if x \<in> set xs then Inr (index_of xs x) else Inl ValueError)"

text \<open>\<^verbatim>\<open>f[-1] = v\<close> on a non-empty list.\<close>

definition set_last :: "'a list \<Rightarrow> 'a \<Rightarrow> 'a list" where
  "set_last f v = butlast f @ [v]"

section \<open>The drop-down tables of the module\<close>

definition operators :: "string list" where
  "operators = [''=='', ''!='', ''<'', ''>'', ''<='', ''>='']"

definition column_type_names :: "string list" where
  "column_type_names = [''datetime'', ''int'', ''float'', ''str'']"

datatype filter_kind = And | Or | Series

definition filter_types :: "filter_kind list" where
  "filter_types = [And, Or, Series]"

fun kind_name :: "filter_kind \<Rightarrow> string" where
  "kind_name And = ''and''"
| "kind_name Or = ''or''"
| "kind_name Series = ''series''"

definition type_lookup :: "(string \<times> string) list" where
  "type_lookup = [(''datetime64[ns]'', ''datetime''), (''float64'', ''float''),
                  (''Int64'', ''int''), (''object'', ''str'')]"

definition dtype_lookup :: "(string \<times> string) list" where
  "dtype_lookup = [(''datetime'', ''datetime64[ns]''), (''float'', ''float64''),
                   (''int'', ''Int64''), (''str'', ''object'')]"

section \<open>The configuration, the post-processing object and the session state\<close>

text \<open>
  The attributes of \<^verbatim>\<open>ConfigHandler\<close> that the module reads or writes. A column name
  is optional because the axis drop-downs can be empty; \<^verbatim>\<open>column_types\<close> is keyed by it.
\<close>

record config =
  title :: "string option"
  plot_type :: "string option"
  x_axis :: "(string \<times> pyval) list"
  y_axis :: "(string \<times> pyval) list"
  filters :: "(string \<times> clause list) list"
  series :: "clause list"
  column_types :: "string option \<rightharpoonup> string"
  and_filters :: "clause list"
  or_filters :: "clause list"
  series_filters :: "clause list"
  plot_columns :: "string option list"
  extra_columns :: "string option list"
  all_columns :: "string option list"

record ('df, 'p) post =
  df :: 'df
  original_df :: 'df
  mask :: "bool list"
  plot :: "'p option"

text \<open>
  The session state: the two objects, the log of the page, and the widget values the
  callbacks read. \<^verbatim>\<open>st_list k\<close> is \<^verbatim>\<open>state["and"]\<close>, \<^verbatim>\<open>state["or"]\<close> or \<^verbatim>\<open>state["series"]\<close>;
  \<^verbatim>\<open>'v\<close> is the type of the dataset's native values.
\<close>

record ('v, 'df, 'p) session =
  post :: "('df, 'p) post"
  config :: config
  ui :: "ui_msg list"
  st_list :: "filter_kind \<Rightarrow> clause list"
  filter_type :: filter_kind
  filter_column_type :: string
  x_axis_column :: "string option"
  x_axis_type :: string
  x_axis_units_column :: "string option"
  x_axis_units_custom :: "string option"
  y_axis_column :: "string option"
  y_axis_type :: string
  y_axis_units_column :: "string option"
  y_axis_units_custom :: "string option"
  y_axis_scaling_column :: "string option"
  y_axis_scaling_type :: string
  y_axis_scaling_series :: "clause option"
  y_axis_scaling_x_value :: "'v option"
  y_axis_custom_scaling_val :: "string option"
  extra_col :: "string option"
  uploaded_config :: "string option"

section \<open>The collaborators\<close>

text \<open>
  \<^verbatim>\<open>config_handler.py\<close> and \<^verbatim>\<open>post_processing.py\<close> are imported by the module and are
  not part of the sources at hand, so their methods are parameters. A method of the
  configuration maps the object to the object it leaves and the exception it raises, if
  any. \<^verbatim>\<open>val_as_dtype\<close> and \<^verbatim>\<open>val_as_col_dtype\<close> stand for the call followed by
  \<^verbatim>\<open>.iloc[0]\<close>. \<^verbatim>\<open>run_post_processing\<close> gives, from the working dataset and the
  configuration, what the run writes to the object: the dataset it leaves, the mask and
  the plot when it gets to assign them, and the exception it raises, if any.
  \<^verbatim>\<open>py_str\<close> is \<^verbatim>\<open>str\<close> on a native value.
\<close>

record cfg_methods =
  parse_filters :: "config \<Rightarrow> config \<times> exn option"
  parse_columns :: "config \<Rightarrow> config \<times> exn option"
  remove_redundant_types :: "config \<Rightarrow> config \<times> exn option"
  parse_scaling :: "config \<Rightarrow> config \<times> exn option"
  read_config :: "config \<Rightarrow> exn option"
  load_config :: "string \<Rightarrow> exn + pyval"
  ConfigHandler :: "pyval \<Rightarrow> bool \<Rightarrow> exn + config"

record ('v, 'df, 'p) post_methods =
  py_str :: "'v \<Rightarrow> string"
  val_as_dtype :: "('df, 'p) post \<Rightarrow> 'v \<Rightarrow> string option \<Rightarrow> exn + 'v"
  val_as_col_dtype :: "('df, 'p) post \<Rightarrow> string \<Rightarrow> string \<Rightarrow> exn + 'v"
  apply_df_types :: "('df, 'p) post \<Rightarrow> string option list \<Rightarrow> (string option \<rightharpoonup> string)
                       \<Rightarrow> ('df, 'p) post \<times> exn option"
  run_post_processing :: "'df \<Rightarrow> config \<Rightarrow> 'df \<times> bool list option \<times> 'p option option \<times> exn option"

text \<open>Sequencing: the next statement runs only when the previous one raised nothing.\<close>

definition and_then :: "'s \<times> exn option \<Rightarrow> ('s \<Rightarrow> 's \<times> exn option) \<Rightarrow> 's \<times> exn option" where
  "and_then r f = (case r of (s, None) \<Rightarrow> f s | (s, Some e) \<Rightarrow> (s, Some e))"

text \<open>A method call on \<^verbatim>\<open>state.config\<close>.\<close>

definition on_config ::
  "(config \<Rightarrow> config \<times> exn option) \<Rightarrow> ('v, 'df, 'p) session \<Rightarrow> ('v, 'df, 'p) session \<times> exn option" where
  "on_config m s = (case m (config s) of (c, e) \<Rightarrow> (s\<lparr>config := c\<rparr>, e))"

definition st_exception :: "exn \<Rightarrow> ('v, 'df, 'p) session \<Rightarrow> ('v, 'df, 'p) session" where
  "st_exception e s = s\<lparr>ui := ui s @ [StException e]\<rparr>"

definition st_warning :: "string \<Rightarrow> ('v, 'df, 'p) session \<Rightarrow> ('v, 'df, 'p) session" where
  "st_warning w s = s\<lparr>ui := ui s @ [StWarning w]\<rparr>"

definition clear_plot :: "('v, 'df, 'p) session \<Rightarrow> ('v, 'df, 'p) session" where
  "clear_plot s = s\<lparr>post := (post s)\<lparr>plot := None\<rparr>\<rparr>"

section \<open>update_types and update_filter\<close>

text \<open>
  \<^verbatim>\<open>update_types\<close>: re-parse the columns, prune the types, then apply the types to the
  dataframe; only the last call is inside the \<^verbatim>\<open>try\<close>.
\<close>

definition update_types ::
  "cfg_methods \<Rightarrow> ('v, 'df, 'p) post_methods \<Rightarrow> ('v, 'df, 'p) session \<Rightarrow> ('v, 'df, 'p) session \<times> exn option" where
  "update_types cm pm s =
     and_then (on_config (parse_columns cm) s) (\<lambda>s1.
     and_then (on_config (remove_redundant_types cm) s1) (\<lambda>s2.
       (case apply_df_types pm (post s2) (all_columns (config s2)) (column_types (config s2)) of
          (p, None) \<Rightarrow> (s2\<lparr>post := p\<rparr>, None)
        | (p, Some e) \<Rightarrow> (clear_plot (st_exception e (s2\<lparr>post := p\<rparr>)), None))))"

text \<open>
  \<^verbatim>\<open>update_filter(key)\<close>: \<^verbatim>\<open>config.series\<close> or \<^verbatim>\<open>config.filters[key]\<close> is bound to the
  list \<^verbatim>\<open>state[key]\<close>, then the filters are re-parsed and the types updated.
\<close>

definition bind_list :: "filter_kind \<Rightarrow> clause list \<Rightarrow> config \<Rightarrow> config" where
  "bind_list key xs c =
     (if key = Series then c\<lparr>series := xs\<rparr>
      else c\<lparr>filters := dict_set (kind_name key) xs (filters c)\<rparr>)"

definition update_filter ::
  "cfg_methods \<Rightarrow> ('v, 'df, 'p) post_methods \<Rightarrow> filter_kind \<Rightarrow> ('v, 'df, 'p) session
     \<Rightarrow> ('v, 'df, 'p) session \<times> exn option" where
  "update_filter cm pm key s =
     and_then (on_config (parse_filters cm) (s\<lparr>config := bind_list key (st_list s key) (config s)\<rparr>))
       (update_types cm pm)"

section \<open>add_filter\<close>

text \<open>
  The retyping loop \<^verbatim>\<open>for f in state[key]\<close>, started at position j of the list xs. The
  list is written in place while it is read: the clause written is the first one equal
  to f, which need not be the one at position j. \<^verbatim>\<open>f[0]\<close> raises IndexError on an
  empty clause, and a cast that raises ends the loop.
\<close>

function retype_loop ::
  "('v, 'df, 'p) post_methods \<Rightarrow> ('df, 'p) post \<Rightarrow> string \<Rightarrow> nat \<Rightarrow> clause list
     \<Rightarrow> clause list \<times> exn option" where
  "retype_loop pm p col j xs =
     (if length xs \<le> j then (xs, None)
      else if xs ! j = [] then (xs, Some IndexError)
      else if hd (xs ! j) = col then
        (let i = index_of xs (xs ! j) in
         case val_as_col_dtype pm p (last (xs ! i)) col of
           Inl e \<Rightarrow> (xs, Some e)
         | Inr v \<Rightarrow> retype_loop pm p col (Suc j) (xs[i := set_last (xs ! i) (py_str pm v)]))
      else retype_loop pm p col (Suc j) xs)"
  by pat_completeness auto
termination
  by (relation "measure (\<lambda>(pm, p, col, j, xs). length xs - j)") auto

declare retype_loop.simps [simp del]

text \<open>
  Lines 481 to 491: the value is cast through the declared type (an exception of the
  cast is shown and the uncast value kept), turned into a string, and a series clause
  loses its operator.
\<close>

definition typed_value ::
  "('v, 'df, 'p) post_methods \<Rightarrow> ('v, 'df, 'p) session \<Rightarrow> 'v \<Rightarrow> 'v" where
  "typed_value pm s v =
     (case val_as_dtype pm (post s) v (dict_get dtype_lookup (filter_column_type s)) of
        Inr w \<Rightarrow> w | Inl e \<Rightarrow> v)"

definition cast_report ::
  "('v, 'df, 'p) post_methods \<Rightarrow> ('v, 'df, 'p) session \<Rightarrow> 'v \<Rightarrow> ('v, 'df, 'p) session" where
  "cast_report pm s v =
     (case val_as_dtype pm (post s) v (dict_get dtype_lookup (filter_column_type s)) of
        Inr w \<Rightarrow> s | Inl e \<Rightarrow> st_exception e s)"

definition prepared ::
  "('v, 'df, 'p) post_methods \<Rightarrow> ('v, 'df, 'p) session \<Rightarrow> string \<Rightarrow> string \<Rightarrow> 'v \<Rightarrow> clause" where
  "prepared pm s col oper v =
     (if filter_type s = Series then [col, py_str pm (typed_value pm s v)]
      else [col, oper, py_str pm (typed_value pm s v)])"

text \<open>
  The body of the inner \<^verbatim>\<open>try\<close> (lines 495 to 511) for the prepared clause f. After
  \<^verbatim>\<open>update_filter\<close> the configuration holds the very list \<^verbatim>\<open>state[key]\<close>, so what the
  loop writes to the list is written to both.
\<close>

definition store_list :: "filter_kind \<Rightarrow> clause list \<Rightarrow> ('v, 'df, 'p) session \<Rightarrow> ('v, 'df, 'p) session" where
  "store_list key xs s = s\<lparr>st_list := (st_list s)(key := xs), config := bind_list key xs (config s)\<rparr>"

definition try_add ::
  "cfg_methods \<Rightarrow> ('v, 'df, 'p) post_methods \<Rightarrow> clause \<Rightarrow> ('v, 'df, 'p) session
     \<Rightarrow> ('v, 'df, 'p) session \<times> exn option" where
  "try_add cm pm f s =
     (let key = filter_type s;
          s1 = s\<lparr>st_list := (st_list s)(key := st_list s key @ [f])\<rparr>;
          s2 = s1\<lparr>config := (config s1)\<lparr>column_types :=
                  (column_types (config s1))(Some (hd f) \<mapsto> filter_column_type s1)\<rparr>\<rparr>
      in and_then (update_filter cm pm key s2) (\<lambda>s3.
           case retype_loop pm (post s3) (hd f) 0 (st_list s3 key) of
             (xs, e) \<Rightarrow> (store_list key xs s3, e)))"

text \<open>
  The handler (lines 513 to 519). The local \<^verbatim>\<open>filter\<close> is the object appended to the
  list, at position n, so its value is whatever the loop left there; \<^verbatim>\<open>remove\<close> takes
  out the first clause equal to it. An exception of the second \<^verbatim>\<open>update_filter\<close> escapes.
\<close>

definition roll_back ::
  "cfg_methods \<Rightarrow> ('v, 'df, 'p) post_methods \<Rightarrow> nat \<Rightarrow> exn \<Rightarrow> ('v, 'df, 'p) session
     \<Rightarrow> ('v, 'df, 'p) session \<times> exn option" where
  "roll_back cm pm n e s =
     (let key = filter_type s;
          s1 = clear_plot (st_exception e s);
          s2 = s1\<lparr>st_list := (st_list s1)(key := remove1 (st_list s1 key ! n) (st_list s1 key))\<rparr>
      in update_filter cm pm key s2)"

text \<open>\<^verbatim>\<open>add_filter(filter)\<close> for \<^verbatim>\<open>filter = [col, oper, val]\<close>, as the button passes it.\<close>

definition add_filter ::
  "cfg_methods \<Rightarrow> ('v, 'df, 'p) post_methods \<Rightarrow> string \<Rightarrow> string \<Rightarrow> 'v option
     \<Rightarrow> ('v, 'df, 'p) session \<Rightarrow> ('v, 'df, 'p) session \<times> exn option" where
  "add_filter cm pm col oper val s =
     (case val of
        None \<Rightarrow> (st_warning
          ''Currently selected filter cannot be added. Missing filter value information.'' s, None)
      | Some v \<Rightarrow>
          (let f = prepared pm s col oper v;
               s0 = cast_report pm s v
           in if f \<notin> set (st_list s0 (filter_type s0)) then
                (case try_add cm pm f s0 of
                   (s1, None) \<Rightarrow> (s1, None)
                 | (s1, Some e) \<Rightarrow> roll_back cm pm (length (st_list s0 (filter_type s0))) e s1)
              else (st_warning ''Currently selected filter is already present.'' s0, None)))"

text \<open>
  The vocabulary of the properties of added filters. The add succeeds when the prepared
  clause is not in the list yet and the inner \<^verbatim>\<open>try\<close> raises nothing. The cast of a
  column is stable when casting a string that \<^verbatim>\<open>str\<close> printed for a value of that cast
  returns a value that prints the same. \<^verbatim>\<open>clause_of\<close> is the stored form of a clause
  of a kind.
\<close>

definition added ::
  "cfg_methods \<Rightarrow> ('v, 'df, 'p) post_methods \<Rightarrow> string \<Rightarrow> string \<Rightarrow> 'v \<Rightarrow> ('v, 'df, 'p) session \<Rightarrow> bool" where
  "added cm pm col oper v s =
     (prepared pm s col oper v \<notin> set (st_list s (filter_type s))
      \<and> snd (try_add cm pm (prepared pm s col oper v) (cast_report pm s v)) = None)"

definition cast_stable :: "('v, 'df, 'p) post_methods \<Rightarrow> ('df, 'p) post \<Rightarrow> string \<Rightarrow> bool" where
  "cast_stable pm p col =
     (\<forall>w v. val_as_col_dtype pm p w col = Inr v \<longrightarrow>
        (\<exists>v'. val_as_col_dtype pm p (py_str pm v) col = Inr v' \<and> py_str pm v' = py_str pm v))"

definition clause_of :: "filter_kind \<Rightarrow> string \<Rightarrow> string \<Rightarrow> string \<Rightarrow> clause" where
  "clause_of key col oper u = (if key = Series then [col, u] else [col, oper, u])"

section \<open>update_axes\<close>

text \<open>\<^verbatim>\<open>str\<close> of a widget value that may be None.\<close>

definition str_of :: "('v, 'df, 'p) post_methods \<Rightarrow> 'v option \<Rightarrow> string" where
  "str_of pm x = (case x of None \<Rightarrow> ''None'' | Some v \<Rightarrow> py_str pm v)"

text \<open>
  Lines 315 to 322, for one axis: the units become \<^verbatim>\<open>{"custom": custom}\<close>, and
  \<^verbatim>\<open>{"column": column}\<close> with the column typed as a string when no custom text is given
  and a column is selected.
\<close>

definition units_of :: "string option \<Rightarrow> string option \<Rightarrow> pyval" where
  "units_of custom column =
     (if \<not> truthy_str custom \<and> truthy_str column then PDict [(''column'', of_opt column)]
      else PDict [(''custom'', of_opt custom)])"

definition units_types ::
  "string option \<Rightarrow> string option \<Rightarrow> (string option \<rightharpoonup> string) \<Rightarrow> (string option \<rightharpoonup> string)" where
  "units_types custom column ct =
     (if \<not> truthy_str custom \<and> truthy_str column then ct(column \<mapsto> ''str'') else ct)"

text \<open>
  Lines 325 to 332: the scaling becomes \<^verbatim>\<open>{"custom": ...}\<close> first; the column form
  replaces it when no custom value is given and a column is selected, unless looking
  the selected series up in \<^verbatim>\<open>series_filters\<close> raises ValueError, which leaves the
  custom form in place and escapes.
\<close>

definition series_index :: "clause list \<Rightarrow> clause option \<Rightarrow> exn + pyval" where
  "series_index fs sel =
     (case sel of
        None \<Rightarrow> Inr PNone
      | Some f \<Rightarrow> (if f = [] then Inr PNone
                   else case list_index fs f of Inl e \<Rightarrow> Inl e | Inr i \<Rightarrow> Inr (PInt (int i))))"

definition scaling_column ::
  "('v, 'df, 'p) post_methods \<Rightarrow> ('v, 'df, 'p) session \<Rightarrow> pyval \<Rightarrow> pyval" where
  "scaling_column pm s idx =
     PDict [(''column'', PDict [(''name'', of_opt (y_axis_scaling_column s)),
                                (''series'', idx),
                                (''x_value'', PStr (str_of pm (y_axis_scaling_x_value s)))])]"

definition assign_axes ::
  "('v, 'df, 'p) post_methods \<Rightarrow> ('v, 'df, 'p) session \<Rightarrow> ('v, 'df, 'p) session \<times> exn option" where
  "assign_axes pm s =
     (let c = config s;
          c1 = c\<lparr>x_axis := dict_set ''value'' (of_opt (x_axis_column s)) (x_axis c),
                 y_axis := dict_set ''value'' (of_opt (y_axis_column s)) (y_axis c)\<rparr>;
          c2 = c1\<lparr>column_types := ((column_types c1)(x_axis_column s \<mapsto> x_axis_type s))
                                       (y_axis_column s \<mapsto> y_axis_type s)\<rparr>;
          c3 = c2\<lparr>x_axis := dict_set ''units''
                     (units_of (x_axis_units_custom s) (x_axis_units_column s)) (x_axis c2),
                   column_types := units_types (x_axis_units_custom s) (x_axis_units_column s)
                     (column_types c2)\<rparr>;
          c4 = c3\<lparr>y_axis := dict_set ''units''
                     (units_of (y_axis_units_custom s) (y_axis_units_column s)) (y_axis c3),
                   column_types := units_types (y_axis_units_custom s) (y_axis_units_column s)
                     (column_types c3)\<rparr>;
          c5 = c4\<lparr>y_axis := dict_set ''scaling''
                     (PDict [(''custom'', if truthy_str (y_axis_custom_scaling_val s)
                                          then of_opt (y_axis_custom_scaling_val s) else PNone)])
                     (y_axis c4)\<rparr>
      in if \<not> truthy_str (y_axis_custom_scaling_val s) \<and> truthy_str (y_axis_scaling_column s) then
           (case series_index (series_filters c5) (y_axis_scaling_series s) of
              Inl e \<Rightarrow> (s\<lparr>config := c5\<rparr>, Some e)
            | Inr idx \<Rightarrow>
                (s\<lparr>config := c5\<lparr>y_axis := dict_set ''scaling'' (scaling_column pm s idx) (y_axis c5),
                                 column_types := (column_types c5)
                                   (y_axis_scaling_column s \<mapsto> y_axis_scaling_type s)\<rparr>\<rparr>, None))
         else (s\<lparr>config := c5\<rparr>, None))"

text \<open>\<^verbatim>\<open>update_axes\<close>: the assignments, then \<^verbatim>\<open>config.parse_scaling()\<close> and \<^verbatim>\<open>update_types()\<close>.\<close>

definition update_axes ::
  "cfg_methods \<Rightarrow> ('v, 'df, 'p) post_methods \<Rightarrow> ('v, 'df, 'p) session \<Rightarrow> ('v, 'df, 'p) session \<times> exn option" where
  "update_axes cm pm s =
     and_then (assign_axes pm s) (\<lambda>s1.
     and_then (on_config (parse_scaling cm) s1) (update_types cm pm))"

text \<open>
  The vocabulary of the properties of the axes: an alternative of a units or scaling dict
  is populated when its key is present with a truthy value.
\<close>

definition populated :: "pyval \<Rightarrow> string \<Rightarrow> bool" where
  "populated d k =
     (case d of PDict kv \<Rightarrow> (case dict_get kv k of Some v \<Rightarrow> truthy v | None \<Rightarrow> False)
      | _ \<Rightarrow> False)"

definition exclusive :: "pyval option \<Rightarrow> bool" where
  "exclusive spec =
     (case spec of None \<Rightarrow> True
      | Some d \<Rightarrow> \<not> (populated d ''custom'' \<and> populated d ''column''))"

definition axes_exclusive :: "config \<Rightarrow> bool" where
  "axes_exclusive c =
     (exclusive (dict_get (x_axis c) ''units'') \<and> exclusive (dict_get (y_axis c) ''units'')
      \<and> exclusive (dict_get (y_axis c) ''scaling''))"

text \<open>The methods of the configuration that run after the assignments leave the two axis dicts alone.\<close>

definition keeps_axes :: "(config \<Rightarrow> config \<times> exn option) \<Rightarrow> bool" where
  "keeps_axes m = (\<forall>c. x_axis (fst (m c)) = x_axis c \<and> y_axis (fst (m c)) = y_axis c)"

text \<open>The \<^verbatim>\<open>x_value\<close> stored under \<^verbatim>\<open>y_axis["scaling"]["column"]\<close>, when there is one.\<close>

definition stored_x_value :: "config \<Rightarrow> pyval option" where
  "stored_x_value c =
     (case dict_get (y_axis c) ''scaling'' of
        Some (PDict sc) \<Rightarrow>
          (case dict_get sc ''column'' of
             Some (PDict cl) \<Rightarrow> dict_get cl ''x_value''
           | _ \<Rightarrow> None)
      | _ \<Rightarrow> None)"

section \<open>add_extra_column\<close>

definition add_extra_column ::
  "cfg_methods \<Rightarrow> ('v, 'df, 'p) session \<Rightarrow> ('v, 'df, 'p) session \<times> exn option" where
  "add_extra_column cm s =
     (let c = config s;
          shown = plot_columns c @ extra_columns c @ [extra_col s];
          s1 = (if length shown \<noteq> length (remdups shown)
                then st_warning
                  ''Currently selected extra column is already present in the DataFrame mask.'' s
                else s)
      in if extra_col s \<notin> set (extra_columns c) then
           on_config (parse_columns cm)
             (s1\<lparr>config := c\<lparr>extra_columns := extra_columns c @ [extra_col s]\<rparr>\<rparr>)
         else (s1, None))"

definition keeps_extra :: "(config \<Rightarrow> config \<times> exn option) \<Rightarrow> bool" where
  "keeps_extra m = (\<forall>c. extra_columns (fst (m c)) = extra_columns c)"

section \<open>rerun_post_processing\<close>

text \<open>
  The config is validated (\<^verbatim>\<open>read_config(config.to_dict())\<close>), the working dataset is
  reset to a copy of the original one, and the run writes what it writes; any exception
  is shown and clears the plot.
\<close>

definition write_run ::
  "'df \<times> bool list option \<times> 'p option option \<times> exn option \<Rightarrow> ('df, 'p) post \<Rightarrow> ('df, 'p) post" where
  "write_run r p =
     (case r of (d, m, pl, e) \<Rightarrow>
        p\<lparr>df := d,
          mask := (case m of None \<Rightarrow> mask p | Some m' \<Rightarrow> m'),
          plot := (case pl of None \<Rightarrow> plot p | Some pl' \<Rightarrow> pl')\<rparr>)"

definition rerun_post_processing ::
  "cfg_methods \<Rightarrow> ('v, 'df, 'p) post_methods \<Rightarrow> ('v, 'df, 'p) session \<Rightarrow> ('v, 'df, 'p) session" where
  "rerun_post_processing cm pm s =
     (case read_config cm (config s) of
        Some e \<Rightarrow> clear_plot (st_exception e s)
      | None \<Rightarrow>
          (let p0 = (post s)\<lparr>df := original_df (post s)\<rparr>;
               r = run_post_processing pm (df p0) (config s);
               s1 = s\<lparr>post := write_run r p0\<rparr>
           in case snd (snd (snd r)) of
                None \<Rightarrow> s1
              | Some e \<Rightarrow> clear_plot (st_exception e s1)))"

section \<open>update_config\<close>

text \<open>
  The handler of the outer \<^verbatim>\<open>try\<close> (lines 119 to 126). \<^verbatim>\<open>config_dict\<close> is unbound when
  \<^verbatim>\<open>load_config\<close> itself raised, and reading it then raises a NameError inside the inner
  \<^verbatim>\<open>try\<close>.
\<close>

definition config_fallback ::
  "cfg_methods \<Rightarrow> pyval option \<Rightarrow> exn \<Rightarrow> ('v, 'df, 'p) session \<Rightarrow> ('v, 'df, 'p) session" where
  "config_fallback cm config_dict e s =
     (let s1 = clear_plot (st_exception e s)
      in case config_dict of
           None \<Rightarrow> st_exception NameError s1
         | Some d \<Rightarrow> (case ConfigHandler cm d True of
                        Inl e' \<Rightarrow> st_exception e' s1
                      | Inr c \<Rightarrow> s1\<lparr>config := c\<rparr>))"

text \<open>\<^verbatim>\<open>update_config\<close>; the uploaded file, when there is one, is given by its text.\<close>

definition update_config ::
  "cfg_methods \<Rightarrow> ('v, 'df, 'p) post_methods \<Rightarrow> ('v, 'df, 'p) session \<Rightarrow> ('v, 'df, 'p) session" where
  "update_config cm pm s =
     (case uploaded_config s of
        None \<Rightarrow> s
      | Some u \<Rightarrow>
          (case load_config cm u of
             Inl e \<Rightarrow> config_fallback cm None e s
           | Inr d \<Rightarrow>
               (case ConfigHandler cm d False of
                  Inl e \<Rightarrow> config_fallback cm (Some d) e s
                | Inr c \<Rightarrow>
                    (case apply_df_types pm (post s) (all_columns c) (column_types c) of
                       (p, None) \<Rightarrow> s\<lparr>config := c, post := p\<rparr>
                     | (p, Some e) \<Rightarrow> config_fallback cm (Some d) e (s\<lparr>config := c, post := p\<rparr>)))))"

section \<open>The filter engine of the specification\<close>

text \<open>
  Modelled from the spec: \<^verbatim>\<open>FilterEngine.evaluate\<close> (section 4.3) lives in
  \<^verbatim>\<open>post_processing.py\<close>, which is not among the sources. A clause is cast back to the
  native type of its column and evaluated on every row with its operator; the AND clauses
  are conjoined, the OR clauses and the series clauses disjoined, an empty list of any
  of the three giving all-true, and the mask is the conjunction of the three results. The
  cast and the comparison of native values are parameters; a series clause tests equality.
\<close>

definition clause_mask ::
  "(string \<Rightarrow> string \<Rightarrow> exn + 'v) \<Rightarrow> (string \<Rightarrow> 'v \<Rightarrow> 'v \<Rightarrow> bool) \<Rightarrow> (string \<Rightarrow> 'v) list
     \<Rightarrow> string \<times> string \<times> string \<Rightarrow> exn + bool list" where
  "clause_mask cast holds rows cl =
     (case cl of (col, oper, stored) \<Rightarrow>
        (case cast col stored of
           Inl e \<Rightarrow> Inl e
         | Inr w \<Rightarrow> Inr (map (\<lambda>r. holds oper (r col) w) rows)))"

fun combine_masks ::
  "(bool \<Rightarrow> bool \<Rightarrow> bool) \<Rightarrow> bool list \<Rightarrow> (exn + bool list) list \<Rightarrow> exn + bool list" where
  "combine_masks f acc [] = Inr acc"
| "combine_masks f acc (Inl e # ms) = Inl e"
| "combine_masks f acc (Inr m # ms) = combine_masks f (map2 f acc m) ms"

definition all_true :: "'a list \<Rightarrow> bool list" where
  "all_true rows = replicate (length rows) True"

definition and_result ::
  "(string \<Rightarrow> string \<Rightarrow> exn + 'v) \<Rightarrow> (string \<Rightarrow> 'v \<Rightarrow> 'v \<Rightarrow> bool) \<Rightarrow> (string \<Rightarrow> 'v) list
     \<Rightarrow> (string \<times> string \<times> string) list \<Rightarrow> exn + bool list" where
  "and_result cast holds rows cls =
     combine_masks (\<and>) (all_true rows) (map (clause_mask cast holds rows) cls)"

definition or_result ::
  "(string \<Rightarrow> string \<Rightarrow> exn + 'v) \<Rightarrow> (string \<Rightarrow> 'v \<Rightarrow> 'v \<Rightarrow> bool) \<Rightarrow> (string \<Rightarrow> 'v) list
     \<Rightarrow> (string \<times> string \<times> string) list \<Rightarrow> exn + bool list" where
  "or_result cast holds rows cls =
     (if cls = [] then Inr (all_true rows)
      else combine_masks (\<or>) (replicate (length rows) False) (map (clause_mask cast holds rows) cls))"

definition evaluate ::
  "(string \<Rightarrow> string \<Rightarrow> exn + 'v) \<Rightarrow> (string \<Rightarrow> 'v \<Rightarrow> 'v \<Rightarrow> bool) \<Rightarrow> (string \<Rightarrow> 'v) list
     \<Rightarrow> (string \<times> string \<times> string) list \<Rightarrow> (string \<times> string \<times> string) list
     \<Rightarrow> (string \<times> string) list \<Rightarrow> exn + bool list" where
  "evaluate cast holds rows ands ors sers =
     combine_masks (\<and>) (all_true rows)
       [and_result cast holds rows ands,
        or_result cast holds rows ors,
        or_result cast holds rows (map (\<lambda>(col, stored). (col, ''=='', stored)) sers)]"

section \<open>A small dataset and configuration for the examples\<close>

text \<open>
  The examples below run the callbacks on a dataframe given by its columns, each with
  its pandas dtype and its cells. A native value is written the way \<^verbatim>\<open>str\<close> prints it,
  so \<^verbatim>\<open>str\<close> is the identity. The cast knows the values the examples use: the text
  \<^verbatim>\<open>1\<close> becomes the float \<^verbatim>\<open>1.0\<close>, and a text that is no number raises ValueError.
\<close>

type_synonym demo_df = "(string \<times> string \<times> string list) list"

definition demo_cast :: "string \<Rightarrow> string \<Rightarrow> exn + string" where
  "demo_cast dtype v =
     (if dtype = ''object'' then Inr v
      else if dtype = ''float64'' then
        (case map_of [(''1'', ''1.0''), (''2'', ''2.0''), (''1.0'', ''1.0''), (''2.0'', ''2.0'')] v of
           Some w \<Rightarrow> Inr w | None \<Rightarrow> Inl ValueError)
      else if dtype = ''Int64'' then
        (case map_of [(''1'', ''1''), (''2'', ''2'')] v of
           Some w \<Rightarrow> Inr w | None \<Rightarrow> Inl ValueError)
      else Inl (Raised ''TypeError''))"

fun demo_cast_all :: "string \<Rightarrow> string list \<Rightarrow> exn + string list" where
  "demo_cast_all dtype [] = Inr []"
| "demo_cast_all dtype (v # vs) =
     (case demo_cast dtype v of
        Inl e \<Rightarrow> Inl e
      | Inr w \<Rightarrow> (case demo_cast_all dtype vs of Inl e \<Rightarrow> Inl e | Inr ws \<Rightarrow> Inr (w # ws)))"

fun demo_astype ::
  "demo_df \<Rightarrow> string option list \<Rightarrow> (string option \<rightharpoonup> string) \<Rightarrow> demo_df \<times> exn option" where
  "demo_astype d [] ct = (d, None)"
| "demo_astype d (None # cols) ct = (d, Some KeyError)"
| "demo_astype d (Some name # cols) ct =
     (case (ct (Some name), map_of d name) of
        (Some t, Some (t0, cells)) \<Rightarrow>
          (case dict_get dtype_lookup t of
             None \<Rightarrow> (d, Some (Raised ''RuntimeError''))
           | Some t1 \<Rightarrow>
               (if t1 = t0 then demo_astype d cols ct
                else case demo_cast_all t1 cells of
                       Inl e \<Rightarrow> (d, Some e)
                     | Inr cells' \<Rightarrow> demo_astype (AList.update name (t1, cells') d) cols ct))
      | _ \<Rightarrow> (d, Some KeyError))"

definition demo_run ::
  "demo_df \<Rightarrow> config \<Rightarrow> demo_df \<times> bool list option \<times> string option option \<times> exn option" where
  "demo_run d c =
     (case demo_astype d (all_columns c) (column_types c) of
        (d', Some e) \<Rightarrow> (d', None, None, Some e)
      | (d', None) \<Rightarrow> (d', Some [True, True], Some (Some ''chart''), None))"

definition demo_pm :: "(string, demo_df, string) post_methods" where
  "demo_pm =
     \<lparr>py_str = (\<lambda>v. v),
      val_as_dtype = (\<lambda>p v dtype. case dtype of None \<Rightarrow> Inr v | Some t \<Rightarrow> demo_cast t v),
      val_as_col_dtype = (\<lambda>p v col. case map_of (df p) col of
                            None \<Rightarrow> Inl KeyError | Some (t, cells) \<Rightarrow> demo_cast t v),
      apply_df_types = (\<lambda>p cols ct. case demo_astype (df p) cols ct of (d, e) \<Rightarrow> (p\<lparr>df := d\<rparr>, e)),
      run_post_processing = demo_run\<rparr>"

text \<open>
  The methods of the configuration for the examples: the filter lists are read off
  \<^verbatim>\<open>filters\<close> and \<^verbatim>\<open>series\<close>, the columns are the axis values, the filter columns and
  the extra columns, and the types of other columns are dropped. A document loads to a
  dict or to a plain string; a document that is no dict has no template form either.
\<close>

definition axis_value :: "(string \<times> pyval) list \<Rightarrow> string option list" where
  "axis_value axis = (case dict_get axis ''value'' of Some (PStr c) \<Rightarrow> [Some c] | _ \<Rightarrow> [])"

definition demo_parse_filters :: "config \<Rightarrow> config \<times> exn option" where
  "demo_parse_filters c =
     (c\<lparr>and_filters := (case dict_get (filters c) ''and'' of Some xs \<Rightarrow> xs | None \<Rightarrow> []),
        or_filters := (case dict_get (filters c) ''or'' of Some xs \<Rightarrow> xs | None \<Rightarrow> []),
        series_filters := series c\<rparr>, None)"

definition demo_parse_columns :: "config \<Rightarrow> config \<times> exn option" where
  "demo_parse_columns c =
     (let shown = axis_value (x_axis c) @ axis_value (y_axis c);
          used = map (\<lambda>f. Some (hd f)) (and_filters c @ or_filters c @ series_filters c)
      in (c\<lparr>plot_columns := shown, all_columns := remdups (shown @ used @ extra_columns c)\<rparr>, None))"

definition demo_remove_redundant_types :: "config \<Rightarrow> config \<times> exn option" where
  "demo_remove_redundant_types c =
     (c\<lparr>column_types := (\<lambda>k. if k \<in> set (all_columns c) then column_types c k else None)\<rparr>, None)"

definition demo_config :: config where
  "demo_config =
     \<lparr>title = None, plot_type = None,
      x_axis = [(''value'', PNone), (''units'', PDict [(''custom'', PNone)])],
      y_axis = [(''value'', PNone), (''units'', PDict [(''custom'', PNone)]),
                (''scaling'', PDict [(''custom'', PNone)])],
      filters = [(''and'', []), (''or'', [])], series = [],
      column_types = Map.empty,
      and_filters = [], or_filters = [], series_filters = [],
      plot_columns = [], extra_columns = [], all_columns = []\<rparr>"

definition demo_load :: "string \<Rightarrow> exn + pyval" where
  "demo_load u =
     (if u = ''title: Demo'' then Inr (PDict [(''title'', PStr ''Demo'')])
      else if u = ''hello'' then Inr (PStr ''hello'')
      else Inl (Raised ''YAMLError''))"

definition demo_handler :: "pyval \<Rightarrow> bool \<Rightarrow> exn + config" where
  "demo_handler d template =
     (case d of
        PDict kv \<Rightarrow>
          (if \<not> template \<and> dict_get kv ''x_axis'' = None then Inl KeyError
           else Inr (demo_config\<lparr>title := (case dict_get kv ''title'' of
                                               Some (PStr t) \<Rightarrow> Some t | _ \<Rightarrow> None)\<rparr>))
      | _ \<Rightarrow> Inl (Raised ''AttributeError''))"

definition demo_cm :: cfg_methods where
  "demo_cm =
     \<lparr>parse_filters = demo_parse_filters,
      parse_columns = demo_parse_columns,
      remove_redundant_types = demo_remove_redundant_types,
      parse_scaling = (\<lambda>c. (c, None)),
      read_config = (\<lambda>c. None),
      load_config = demo_load,
      ConfigHandler = demo_handler\<rparr>"

text \<open>
  The session of the examples: a dataframe with one column \<^verbatim>\<open>c\<close> of strings, no
  filters, and the drop-downs set to add an AND filter typed as a float.
\<close>

definition demo_post :: "(demo_df, string) post" where
  "demo_post =
     \<lparr>df = [(''c'', ''object'', [''1'', ''2''])],
      original_df = [(''c'', ''object'', [''1'', ''2''])],
      mask = [True, True], plot = Some ''chart''\<rparr>"

definition demo :: "(string, demo_df, string) session" where
  "demo =
     \<lparr>post = demo_post, config = demo_config, ui = [],
      st_list = (\<lambda>k. []),
      filter_type = And, filter_column_type = ''float'',
      x_axis_column = None, x_axis_type = ''str'',
      x_axis_units_column = None, x_axis_units_custom = None,
      y_axis_column = None, y_axis_type = ''str'',
      y_axis_units_column = None, y_axis_units_custom = None,
      y_axis_scaling_column = None, y_axis_scaling_type = ''str'',
      y_axis_scaling_series = None, y_axis_scaling_x_value = None,
      y_axis_custom_scaling_val = None,
      extra_col = Some ''c'', uploaded_config = None\<rparr>"

text \<open>The same session with given lists in \<^verbatim>\<open>state["and"]\<close> and \<^verbatim>\<open>state["or"]\<close>, the configuration bound to them.\<close>

definition demo_with :: "clause list \<Rightarrow> clause list \<Rightarrow> (string, demo_df, string) session" where
  "demo_with ands ors =
     demo\<lparr>st_list := (\<lambda>k. if k = And then ands else if k = Or then ors else []),
          config := demo_config\<lparr>filters := [(''and'', ands), (''or'', ors)],
                                and_filters := ands, or_filters := ors\<rparr>\<rparr>"

text \<open>
  Three sessions on that dataframe: one with the same clause on \<^verbatim>\<open>c\<close> in the AND and
  in the OR list; one where two AND clauses were added while \<^verbatim>\<open>c\<close> was typed as a
  string; and one whose column holds words, with the drop-down set to the type int.
\<close>

definition demo_retype :: "(string, demo_df, string) session" where
  "demo_retype = demo_with [[''c'', ''=='', ''1'']] [[''c'', ''=='', ''1'']]"

definition demo_typed_str :: "(string, demo_df, string) session" where
  "demo_typed_str =
     (demo_with [[''c'', ''=='', ''1''], [''c'', ''=='', ''abc'']] [])
       \<lparr>config := (config (demo_with [[''c'', ''=='', ''1''], [''c'', ''=='', ''abc'']] []))
          \<lparr>column_types := [Some ''c'' \<mapsto> ''str''], all_columns := [Some ''c'']\<rparr>\<rparr>"

definition demo_words :: "(string, demo_df, string) session" where
  "demo_words =
     demo\<lparr>filter_column_type := ''int'',
          post := demo_post\<lparr>df := [(''c'', ''object'', [''x'', ''y''])],
                           original_df := [(''c'', ''object'', [''x'', ''y''])]\<rparr>\<rparr>"

text \<open>
  More sessions: a scaling column selected with no x-axis value; a custom scaling value
  next to a scaling column, and a custom units text next to a units column; \<^verbatim>\<open>c\<close> among the plot columns; and an
  uploaded file over a configuration that has a title.
\<close>

definition demo_scaling :: "(string, demo_df, string) session" where
  "demo_scaling = demo\<lparr>y_axis_scaling_column := Some ''c''\<rparr>"

definition demo_custom :: "(string, demo_df, string) session" where
  "demo_custom =
     demo\<lparr>y_axis_custom_scaling_val := Some ''2'', y_axis_scaling_column := Some ''c'',
          x_axis_units_custom := Some ''s'', x_axis_units_column := Some ''c''\<rparr>"

definition demo_plotted :: "(string, demo_df, string) session" where
  "demo_plotted = demo\<lparr>config := demo_config\<lparr>plot_columns := [Some ''c'']\<rparr>\<rparr>"

definition demo_upload :: "string \<Rightarrow> (string, demo_df, string) session" where
  "demo_upload u = demo\<lparr>uploaded_config := Some u, config := demo_config\<lparr>title := Some ''Old plot''\<rparr>\<rparr>"

section \<open>Lemmas about lists and the retyping loop\<close>

lemma index_of_le: "j < length xs \<Longrightarrow> index_of xs (xs ! j) \<le> j"
  unfolding index_of_def
proof (induction xs arbitrary: j)
  case Nil then show ?case by simp
next
  case (Cons a xs)
  then show ?case by (cases j) auto
qed

lemma index_of_nth: "x \<in> set xs \<Longrightarrow> xs ! index_of xs x = x"
  unfolding index_of_def by (induction xs) auto

lemma index_of_less: "x \<in> set xs \<Longrightarrow> index_of xs x < length xs"
  unfolding index_of_def by (induction xs) auto

lemma last_set_last: "last (set_last f u) = u"
  by (simp add: set_last_def)

lemma butlast_set_last: "butlast (set_last f u) = butlast f"
  by (simp add: set_last_def)

lemma retype_loop_inv:
  assumes "retype_loop pm p col j xs = (ys, None)"
      and "length xs = length L"
      and "\<forall>k. j \<le> k \<and> k < length L \<longrightarrow> xs ! k = L ! k"
      and "\<forall>k<j. k < length L \<longrightarrow>
             hd (L ! k) \<noteq> col \<longrightarrow> xs ! k = L ! k"
      and "map butlast xs = map butlast L"
  shows "length ys = length L \<and> map butlast ys = map butlast L
       \<and> (\<forall>k<length L.
             hd (L ! k) \<noteq> col \<longrightarrow> ys ! k = L ! k)"
  using assms
proof (induction pm p col j xs rule: retype_loop.induct)
  case (1 pm p col j xs)
  show ?case
  proof (cases "length xs \<le> j")
    case True
    with "1.prems" show ?thesis by (simp add: retype_loop.simps[of pm p col j xs])
  next
    case False
    then have jlt: "j < length xs" by simp
    have xj: "xs ! j = L ! j" using "1.prems"(2,3) jlt by simp
    show ?thesis
    proof (cases "xs ! j = []")
      case True
      with False "1.prems"(1) show ?thesis by (simp add: retype_loop.simps[of pm p col j xs])
    next
      case ne: False
      show ?thesis
      proof (cases "hd (xs ! j) = col")
        case other: False
        have run: "retype_loop pm p col (Suc j) xs = (ys, None)"
          using "1.prems"(1) False ne other by (simp add: retype_loop.simps[of pm p col j xs])
        have inv: "\<forall>k<Suc j. k < length L \<longrightarrow>
             hd (L ! k) \<noteq> col \<longrightarrow> xs ! k = L ! k"
          using "1.prems"(4) xj other by (auto simp: less_Suc_eq)
        show ?thesis
          by (rule "1.IH"(2)[OF False ne other run "1.prems"(2) _ inv "1.prems"(5)])
             (use "1.prems"(3) in auto)
      next
        case same: True
        define i where "i = index_of xs (xs ! j)"
        have mem: "xs ! j \<in> set xs" using jlt by simp
        have ile: "i \<le> j" unfolding i_def by (rule index_of_le[OF jlt])
        have ieq: "xs ! i = xs ! j" unfolding i_def by (rule index_of_nth[OF mem])
        have ilt: "i < length xs" using ile jlt by simp
        obtain v where cast: "val_as_col_dtype pm p (last (xs ! i)) col = Inr v"
          using "1.prems"(1) False ne same
          by (cases "val_as_col_dtype pm p (last (xs ! i)) col")
             (auto simp: retype_loop.simps[of pm p col j xs] Let_def i_def)
        define xs' where "xs' = xs[i := set_last (xs ! i) (py_str pm v)]"
        have run: "retype_loop pm p col (Suc j) xs' = (ys, None)"
          using "1.prems"(1) False ne same cast
          by (simp add: retype_loop.simps[of pm p col j xs] Let_def i_def[symmetric] xs'_def)
        have len: "length xs' = length L" using "1.prems"(2) by (simp add: xs'_def)
        have hdL: "hd (L ! i) = col"
        proof (cases "i = j")
          case True then show ?thesis using same xj by simp
        next
          case False
          then have "i < j" using ile by simp
          show ?thesis
          proof (rule ccontr)
            assume "hd (L ! i) \<noteq> col"
            then have "xs ! i = L ! i" using "1.prems"(4) \<open>i < j\<close> ilt "1.prems"(2) by simp
            then show False using ieq same \<open>hd (L ! i) \<noteq> col\<close> by simp
          qed
        qed
        have later: "\<forall>k. Suc j \<le> k \<and> k < length L \<longrightarrow> xs' ! k = L ! k"
          using "1.prems"(3) ile by (auto simp: xs'_def)
        have inv: "\<forall>k<Suc j. k < length L \<longrightarrow>
             hd (L ! k) \<noteq> col \<longrightarrow> xs' ! k = L ! k"
        proof (intro allI impI)
          fix k assume kj: "k < Suc j" and kL: "k < length L" and o: "hd (L ! k) \<noteq> col"
          have "k \<noteq> i" using o hdL by auto
          then have same_k: "xs' ! k = xs ! k" by (simp add: xs'_def)
          show "xs' ! k = L ! k"
          proof (cases "k = j")
            case True
            then show ?thesis using same_k xj by simp
          next
            case False
            then have "k < j" using kj by simp
            then show ?thesis using "1.prems"(4) kL same_k o by simp
          qed
        qed
        have bl: "map butlast xs' = map butlast L"
          using "1.prems"(5) ilt
          by (simp add: xs'_def map_update butlast_set_last)
             (metis list_update_id map_update nth_map)
        show ?thesis
          by (rule "1.IH"(1)[OF False ne same i_def cast, folded xs'_def, OF run len later inv bl])
      qed
    qed
  qed
qed



section \<open>What the callbacks leave of the session\<close>

lemma cast_report_frame:
  "st_list (cast_report pm s v) = st_list s \<and> config (cast_report pm s v) = config s
   \<and> post (cast_report pm s v) = post s \<and> filter_type (cast_report pm s v) = filter_type s"
  by (simp add: cast_report_def st_exception_def split: sum.splits)

lemma on_config_frame:
  "st_list (fst (on_config m s)) = st_list s \<and> filter_type (fst (on_config m s)) = filter_type s
   \<and> post (fst (on_config m s)) = post s \<and> ui (fst (on_config m s)) = ui s"
  by (simp add: on_config_def split: prod.splits)

lemma update_types_frame:
  "st_list (fst (update_types cm pm s)) = st_list s
   \<and> filter_type (fst (update_types cm pm s)) = filter_type s"
  using on_config_frame[of "parse_columns cm" s]
        on_config_frame[of "remove_redundant_types cm" "fst (on_config (parse_columns cm) s)"]
  by (auto simp: update_types_def and_then_def clear_plot_def st_exception_def
           split: prod.splits option.splits)

lemma update_filter_frame:
  "st_list (fst (update_filter cm pm key s)) = st_list s
   \<and> filter_type (fst (update_filter cm pm key s)) = filter_type s"
  using on_config_frame[of "parse_filters cm" "s\<lparr>config := bind_list key (st_list s key) (config s)\<rparr>"]
        update_types_frame[of cm pm "fst (on_config (parse_filters cm) (s\<lparr>config := bind_list key (st_list s key) (config s)\<rparr>))"]
  by (auto simp: update_filter_def and_then_def split: prod.splits option.splits)

lemma retype_loop_length: "length (fst (retype_loop pm p col j xs)) = length xs"
proof (induction pm p col j xs rule: retype_loop.induct)
  case (1 pm p col j xs)
  show ?case
    using "1.IH"
    by (subst retype_loop.simps) (auto simp: Let_def split: sum.splits)
qed

text \<open>What the try block leaves: the list with the clause appended, run through the loop.\<close>

lemma try_add_shape:
  "\<exists>s3 e3. update_filter cm pm (filter_type s) (s\<lparr>st_list := (st_list s)(filter_type s := st_list s (filter_type s) @ [f]),
         config := (config s)\<lparr>column_types := (column_types (config s))(Some (hd f) \<mapsto> filter_column_type s)\<rparr>\<rparr>) = (s3, e3)
     \<and> st_list s3 = (st_list s)(filter_type s := st_list s (filter_type s) @ [f])
     \<and> filter_type s3 = filter_type s
     \<and> (case e3 of
          Some e \<Rightarrow> try_add cm pm f s = (s3, Some e)
        | None \<Rightarrow> try_add cm pm f s =
            (store_list (filter_type s) (fst (retype_loop pm (post s3) (hd f) 0 (st_list s3 (filter_type s)))) s3,
             snd (retype_loop pm (post s3) (hd f) 0 (st_list s3 (filter_type s)))))"
proof -
  let ?s2 = "s\<lparr>st_list := (st_list s)(filter_type s := st_list s (filter_type s) @ [f]),
         config := (config s)\<lparr>column_types := (column_types (config s))(Some (hd f) \<mapsto> filter_column_type s)\<rparr>\<rparr>"
  obtain s3 e3 where u: "update_filter cm pm (filter_type s) ?s2 = (s3, e3)" by (cases "update_filter cm pm (filter_type s) ?s2")
  have fr: "st_list s3 = st_list ?s2 \<and> filter_type s3 = filter_type ?s2"
    using update_filter_frame[of cm pm "filter_type s" ?s2] u by simp
  have "case e3 of
          Some e \<Rightarrow> try_add cm pm f s = (s3, Some e)
        | None \<Rightarrow> try_add cm pm f s =
            (store_list (filter_type s) (fst (retype_loop pm (post s3) (hd f) 0 (st_list s3 (filter_type s)))) s3,
             snd (retype_loop pm (post s3) (hd f) 0 (st_list s3 (filter_type s))))"
    using u by (auto simp: try_add_def Let_def and_then_def split: option.splits prod.splits)
  with u fr show ?thesis by auto
qed

lemma try_add_frame:
  "filter_type (fst (try_add cm pm f s)) = filter_type s
   \<and> (\<forall>k. k \<noteq> filter_type s \<longrightarrow> st_list (fst (try_add cm pm f s)) k = st_list s k)
   \<and> length (st_list (fst (try_add cm pm f s)) (filter_type s)) = Suc (length (st_list s (filter_type s)))"
  using try_add_shape[of cm pm s f]
  by (auto simp: store_list_def retype_loop_length split: option.splits)

lemma roll_back_frame:
  "\<forall>k. k \<noteq> filter_type s \<longrightarrow> st_list (fst (roll_back cm pm n e s)) k = st_list s k"
  using update_filter_frame[of cm pm "filter_type s" "(clear_plot (st_exception e s))\<lparr>st_list := (st_list s)(filter_type s := remove1 (st_list s (filter_type s) ! n) (st_list s (filter_type s)))\<rparr>"]
  by (simp add: roll_back_def Let_def clear_plot_def st_exception_def)

lemma add_filter_other_lists:
  assumes "k \<noteq> filter_type s"
  shows "st_list (fst (add_filter cm pm col oper val s)) k = st_list s k"
proof (cases val)
  case None
  then show ?thesis by (simp add: add_filter_def st_warning_def)
next
  case (Some v)
  let ?s0 = "cast_report pm s v"
  let ?f = "prepared pm s col oper v"
  have s0: "st_list ?s0 = st_list s" "filter_type ?s0 = filter_type s"
    using cast_report_frame[of pm s v] by simp_all
  show ?thesis
  proof (cases "?f \<in> set (st_list s (filter_type s))")
    case True
    then show ?thesis using Some s0 by (simp add: add_filter_def Let_def st_warning_def)
  next
    case False
    obtain s1 r where t: "try_add cm pm ?f ?s0 = (s1, r)" by (cases "try_add cm pm ?f ?s0")
    have fr: "filter_type s1 = filter_type s" "st_list s1 k = st_list s k"
      using try_add_frame[of cm pm ?f ?s0] t s0 assms by simp_all
    show ?thesis
    proof (cases r)
      case None
      then show ?thesis using Some False t fr s0 by (simp add: add_filter_def Let_def)
    next
      case (Some e)
      then show ?thesis
        using \<open>val = Some v\<close> False t fr s0 assms roll_back_frame[of s1 cm pm _ e]
        by (simp add: add_filter_def Let_def)
    qed
  qed
qed

lemma hd_prepared: "hd (prepared pm s col oper v) = col"
  by (simp add: prepared_def)

lemma added_result:
  assumes "added cm pm col oper v s"
  defines "L \<equiv> st_list s (filter_type s) @ [prepared pm s col oper v]"
  defines "s' \<equiv> fst (add_filter cm pm col oper (Some v) s)"
  shows "snd (add_filter cm pm col oper (Some v) s) = None"
    and "length (st_list s' (filter_type s)) = length L"
    and "map butlast (st_list s' (filter_type s)) = map butlast L"
    and "\<forall>k<length L. hd (L ! k) \<noteq> col \<longrightarrow> st_list s' (filter_type s) ! k = L ! k"
    and "retype_loop pm (post s') col 0 L = (st_list s' (filter_type s), None)"
proof -
  let ?s0 = "cast_report pm s v"
  let ?f = "prepared pm s col oper v"
  let ?key = "filter_type s"
  have s0: "st_list ?s0 = st_list s" "filter_type ?s0 = filter_type s"
    using cast_report_frame[of pm s v] by simp_all
  have nd: "?f \<notin> set (st_list s ?key)" and ok: "snd (try_add cm pm ?f ?s0) = None"
    using assms(1) by (simp_all add: added_def)
  have af: "add_filter cm pm col oper (Some v) s = (fst (try_add cm pm ?f ?s0), None)"
    using nd ok s0 by (cases "try_add cm pm ?f ?s0") (simp add: add_filter_def Let_def)
  show "snd (add_filter cm pm col oper (Some v) s) = None" using af by simp
  obtain s3 e3 where sh:
     "st_list s3 = (st_list ?s0)(filter_type ?s0 := st_list ?s0 (filter_type ?s0) @ [?f])"
     "case e3 of
          Some e \<Rightarrow> try_add cm pm ?f ?s0 = (s3, Some e)
        | None \<Rightarrow> try_add cm pm ?f ?s0 =
            (store_list (filter_type ?s0) (fst (retype_loop pm (post s3) (hd ?f) 0 (st_list s3 (filter_type ?s0)))) s3,
             snd (retype_loop pm (post s3) (hd ?f) 0 (st_list s3 (filter_type ?s0))))"
    using try_add_shape[of cm pm ?s0 ?f] by blast
  have e3: "e3 = None" using sh(2) ok by (cases e3) auto
  have l3: "st_list s3 ?key = L" using sh(1) s0 by (simp add: L_def)
  define ys where "ys = fst (retype_loop pm (post s3) col 0 L)"
  have t: "try_add cm pm ?f ?s0 = (store_list ?key ys s3, snd (retype_loop pm (post s3) col 0 L))"
    using sh(2) e3 l3 s0 by (simp add: hd_prepared ys_def)
  have loop: "retype_loop pm (post s3) col 0 L = (ys, None)"
    using t ok by (simp add: ys_def prod_eq_iff)
  have s': "st_list s' ?key = ys" "post s' = post s3"
    using af t by (simp_all add: s'_def store_list_def)
  have inv: "length ys = length L \<and> map butlast ys = map butlast L
       \<and> (\<forall>k<length L. hd (L ! k) \<noteq> col \<longrightarrow> ys ! k = L ! k)"
    by (rule retype_loop_inv[OF loop]) simp_all
  show "length (st_list s' ?key) = length L" using inv s' by simp
  show "map butlast (st_list s' ?key) = map butlast L" using inv s' by simp
  show "\<forall>k<length L. hd (L ! k) \<noteq> col \<longrightarrow> st_list s' ?key ! k = L ! k"
    using inv s' by simp
  show "retype_loop pm (post s') col 0 L = (st_list s' ?key, None)"
    using loop s' by simp
qed


lemma retype_loop_done: "length xs \<le> j \<Longrightarrow> retype_loop pm p col j xs = (xs, None)"
  by (subst retype_loop.simps) simp

lemma set_last_twice: "set_last (set_last f a) b = set_last f b"
  by (simp add: set_last_def)

lemma retype_loop_exact:
  assumes "retype_loop pm p col j xs = (ys, None)"
      and "cast_stable pm p col"
      and "length xs = length L"
      and "\<forall>k. j \<le> k \<and> k < length L \<longrightarrow> xs ! k = L ! k"
      and "\<forall>k<j. k < length L \<longrightarrow>
             (hd (L ! k) = col \<longrightarrow>
                (\<exists>v. val_as_col_dtype pm p (last (L ! k)) col = Inr v
                     \<and> xs ! k = set_last (L ! k) (py_str pm v)))
           \<and> (hd (L ! k) \<noteq> col \<longrightarrow> xs ! k = L ! k)"
  shows "\<forall>k<length L.
             (hd (L ! k) = col \<longrightarrow>
                (\<exists>v. val_as_col_dtype pm p (last (L ! k)) col = Inr v
                     \<and> ys ! k = set_last (L ! k) (py_str pm v)))
           \<and> (hd (L ! k) \<noteq> col \<longrightarrow> ys ! k = L ! k)"
  using assms
proof (induction pm p col j xs rule: retype_loop.induct)
  case (1 pm p col j xs)
  note stable = "1.prems"(2)
  show ?case
  proof (cases "length xs \<le> j")
    case True
    then have "ys = xs" using "1.prems"(1) by (simp add: retype_loop_done)
    then show ?thesis using "1.prems"(3,5) True by simp
  next
    case False
    then have jlt: "j < length xs" by simp
    have xj: "xs ! j = L ! j" using "1.prems"(3,4) jlt by simp
    show ?thesis
    proof (cases "xs ! j = []")
      case True
      with False "1.prems"(1) show ?thesis by (simp add: retype_loop.simps[of pm p col j xs])
    next
      case ne: False
      show ?thesis
      proof (cases "hd (xs ! j) = col")
        case other: False
        have run: "retype_loop pm p col (Suc j) xs = (ys, None)"
          using "1.prems"(1) False ne other by (simp add: retype_loop.simps[of pm p col j xs])
        have inv: "\<forall>k<Suc j. k < length L \<longrightarrow>
             (hd (L ! k) = col \<longrightarrow>
                (\<exists>v. val_as_col_dtype pm p (last (L ! k)) col = Inr v
                     \<and> xs ! k = set_last (L ! k) (py_str pm v)))
           \<and> (hd (L ! k) \<noteq> col \<longrightarrow> xs ! k = L ! k)"
          using "1.prems"(5) xj other by (auto simp: less_Suc_eq)
        show ?thesis
          by (rule "1.IH"(2)[OF False ne other run stable "1.prems"(3) _ inv])
             (use "1.prems"(4) in auto)
      next
        case same: True
        define i where "i = index_of xs (xs ! j)"
        have mem: "xs ! j \<in> set xs" using jlt by simp
        have ile: "i \<le> j" unfolding i_def by (rule index_of_le[OF jlt])
        have ieq: "xs ! i = xs ! j" unfolding i_def by (rule index_of_nth[OF mem])
        have ilt: "i < length xs" using ile jlt by simp
        obtain v where cast: "val_as_col_dtype pm p (last (xs ! i)) col = Inr v"
          using "1.prems"(1) False ne same
          by (cases "val_as_col_dtype pm p (last (xs ! i)) col")
             (auto simp: retype_loop.simps[of pm p col j xs] Let_def i_def)
        have castj: "val_as_col_dtype pm p (last (L ! j)) col = Inr v"
          using cast ieq xj by simp
        define xs' where "xs' = xs[i := set_last (xs ! i) (py_str pm v)]"
        have xs'_alt: "xs' = xs[i := set_last (L ! j) (py_str pm v)]"
          using ieq xj by (simp add: xs'_def)
        have run: "retype_loop pm p col (Suc j) xs' = (ys, None)"
          using "1.prems"(1) False ne same cast
          by (simp add: retype_loop.simps[of pm p col j xs] Let_def i_def[symmetric] xs'_def)
        have len: "length xs' = length L" using "1.prems"(3) by (simp add: xs'_def)
        have later: "\<forall>k. Suc j \<le> k \<and> k < length L \<longrightarrow> xs' ! k = L ! k"
          using "1.prems"(4) ile by (auto simp: xs'_def)
        have earlier: "i < j \<Longrightarrow>
            \<exists>u. val_as_col_dtype pm p (last (L ! i)) col = Inr u
               \<and> L ! j = set_last (L ! i) (py_str pm u) \<and> py_str pm v = py_str pm u"
        proof -
          assume "i < j"
          have hdL: "hd (L ! i) = col"
          proof (rule ccontr)
            assume "hd (L ! i) \<noteq> col"
            then have "xs ! i = L ! i" using "1.prems"(5) \<open>i < j\<close> ilt "1.prems"(3) by simp
            then show False using ieq same \<open>hd (L ! i) \<noteq> col\<close> by simp
          qed
          then obtain u where u: "val_as_col_dtype pm p (last (L ! i)) col = Inr u"
              "xs ! i = set_last (L ! i) (py_str pm u)"
            using "1.prems"(5) \<open>i < j\<close> ilt "1.prems"(3) by auto
          have lj: "L ! j = set_last (L ! i) (py_str pm u)" using u(2) ieq xj by simp
          then have "last (L ! j) = py_str pm u" by (simp add: last_set_last)
          then have "val_as_col_dtype pm p (py_str pm u) col = Inr v" using castj by simp
          moreover obtain v' where "val_as_col_dtype pm p (py_str pm u) col = Inr v'"
              "py_str pm v' = py_str pm u"
            using stable u(1) unfolding cast_stable_def by blast
          ultimately have "py_str pm v = py_str pm u" by simp
          then show ?thesis using u(1) lj by blast
        qed
        have inv: "\<forall>k<Suc j. k < length L \<longrightarrow>
             (hd (L ! k) = col \<longrightarrow>
                (\<exists>v. val_as_col_dtype pm p (last (L ! k)) col = Inr v
                     \<and> xs' ! k = set_last (L ! k) (py_str pm v)))
           \<and> (hd (L ! k) \<noteq> col \<longrightarrow> xs' ! k = L ! k)"
        proof (intro allI impI)
          fix k assume kj: "k < Suc j" and kL: "k < length L"
          show "(hd (L ! k) = col \<longrightarrow>
                (\<exists>v. val_as_col_dtype pm p (last (L ! k)) col = Inr v
                     \<and> xs' ! k = set_last (L ! k) (py_str pm v)))
              \<and> (hd (L ! k) \<noteq> col \<longrightarrow> xs' ! k = L ! k)"
          proof (cases "k = j")
            case kj': True
            have hj: "hd (L ! j) = col" using same xj by simp
            show ?thesis
            proof (cases "i = j")
              case True
              then have "xs' ! j = set_last (L ! j) (py_str pm v)"
                using jlt by (simp add: xs'_alt)
              then show ?thesis using kj' hj castj by auto
            next
              case False
              then have "i < j" using ile by simp
              then obtain u where u: "val_as_col_dtype pm p (last (L ! i)) col = Inr u"
                  "L ! j = set_last (L ! i) (py_str pm u)" "py_str pm v = py_str pm u"
                using earlier by blast
              have "xs' ! j = L ! j" using False by (simp add: xs'_def xj)
              moreover have "set_last (L ! j) (py_str pm v) = L ! j"
                using u(2,3) by (metis set_last_twice)
              ultimately show ?thesis using kj' hj castj by auto
            qed
          next
            case False
            then have klt: "k < j" using kj by simp
            show ?thesis
            proof (cases "k = i")
              case True
              then have "i < j" using klt by simp
              then obtain u where u: "val_as_col_dtype pm p (last (L ! i)) col = Inr u"
                  "L ! j = set_last (L ! i) (py_str pm u)" "py_str pm v = py_str pm u"
                using earlier by blast
              have "xs' ! i = set_last (L ! j) (py_str pm v)" using ilt by (simp add: xs'_alt)
              also have "\<dots> = set_last (L ! i) (py_str pm u)"
                using u(2,3) by (metis set_last_twice)
              finally have "xs' ! i = set_last (L ! i) (py_str pm u)" .
              moreover have "hd (L ! i) = col"
              proof (rule ccontr)
                assume "hd (L ! i) \<noteq> col"
                then have "xs ! i = L ! i" using "1.prems"(5) \<open>i < j\<close> ilt "1.prems"(3) by simp
                then show False using ieq same \<open>hd (L ! i) \<noteq> col\<close> by simp
              qed
              ultimately show ?thesis using True u(1) by auto
            next
              case ki: False
              then have "xs' ! k = xs ! k" by (simp add: xs'_def)
              then show ?thesis using "1.prems"(5) klt kL by simp
            qed
          qed
        qed
        show ?thesis
          by (rule "1.IH"(1)[OF False ne same i_def cast, folded xs'_def, OF run stable len later inv])
      qed
    qed
  qed
qed

lemma added_exact:
  assumes "added cm pm col oper v s"
      and "cast_stable pm (post (fst (add_filter cm pm col oper (Some v) s))) col"
      and "k < length (st_list s (filter_type s))"
      and "hd (st_list s (filter_type s) ! k) = col"
  shows "\<exists>w. val_as_col_dtype pm (post (fst (add_filter cm pm col oper (Some v) s)))
                 (last (st_list s (filter_type s) ! k)) col = Inr w
            \<and> st_list (fst (add_filter cm pm col oper (Some v) s)) (filter_type s) ! k
                = set_last (st_list s (filter_type s) ! k) (py_str pm w)"
proof -
  let ?L = "st_list s (filter_type s) @ [prepared pm s col oper v]"
  let ?s' = "fst (add_filter cm pm col oper (Some v) s)"
  have kL: "k < length ?L" "?L ! k = st_list s (filter_type s) ! k"
    using assms(3) by (simp_all add: nth_append)
  have "\<forall>k<length ?L.
             (hd (?L ! k) = col \<longrightarrow>
                (\<exists>w. val_as_col_dtype pm (post ?s') (last (?L ! k)) col = Inr w
                     \<and> st_list ?s' (filter_type s) ! k = set_last (?L ! k) (py_str pm w)))
           \<and> (hd (?L ! k) \<noteq> col \<longrightarrow> st_list ?s' (filter_type s) ! k = ?L ! k)"
    by (rule retype_loop_exact[OF added_result(5)[OF assms(1)] assms(2)])
       (simp_all add: added_result(2)[OF assms(1)])
  then have "hd (?L ! k) = col \<longrightarrow>
                (\<exists>w. val_as_col_dtype pm (post ?s') (last (?L ! k)) col = Inr w
                     \<and> st_list ?s' (filter_type s) ! k = set_last (?L ! k) (py_str pm w))"
    using kL(1) by blast
  then show ?thesis unfolding kL(2) using assms(4) by blast
qed

lemma retype_loop_last:
  assumes "retype_loop pm p col j xs = (ys, None)"
      and "Suc n = length xs" and "j \<le> n" and "xs ! n = f" and "hd f = col"
  shows "\<exists>v'. val_as_col_dtype pm p (last f) col = Inr v'
            \<and> (ys ! n = f \<or> ys ! n = set_last f (py_str pm v'))"
  using assms
proof (induction pm p col j xs rule: retype_loop.induct)
  case (1 pm p col j xs)
  have jlt: "\<not> length xs \<le> j" using "1.prems"(2,3) by simp
  have ne: "xs ! j \<noteq> []"
    using "1.prems"(1) jlt by (auto simp: retype_loop.simps[of pm p col j xs] split: if_splits)
  show ?case
  proof (cases "hd (xs ! j) = col")
    case other: False
    then have "j \<noteq> n" using "1.prems"(4,5) by auto
    then have jn: "Suc j \<le> n" using "1.prems"(3) by simp
    have run: "retype_loop pm p col (Suc j) xs = (ys, None)"
      using "1.prems"(1) jlt ne other by (simp add: retype_loop.simps[of pm p col j xs])
    show ?thesis
      by (rule "1.IH"(2)[OF jlt ne other run "1.prems"(2) jn "1.prems"(4,5)])
  next
    case same: True
    define i where "i = index_of xs (xs ! j)"
    have jl: "j < length xs" using jlt by simp
    have ile: "i \<le> j" unfolding i_def by (rule index_of_le[OF jl])
    have ieq: "xs ! i = xs ! j" unfolding i_def by (rule index_of_nth) (use jl in simp)
    obtain v where cast: "val_as_col_dtype pm p (last (xs ! i)) col = Inr v"
      using "1.prems"(1) jlt ne same
      by (cases "val_as_col_dtype pm p (last (xs ! i)) col")
         (auto simp: retype_loop.simps[of pm p col j xs] Let_def i_def)
    define xs' where "xs' = xs[i := set_last (xs ! i) (py_str pm v)]"
    have run: "retype_loop pm p col (Suc j) xs' = (ys, None)"
      using "1.prems"(1) jlt ne same cast
      by (simp add: retype_loop.simps[of pm p col j xs] Let_def i_def[symmetric] xs'_def)
    show ?thesis
    proof (cases "j = n")
      case True
      have "length xs' \<le> Suc j" using True "1.prems"(2) by (simp add: xs'_def)
      then have "retype_loop pm p col (Suc j) xs' = (xs', None)" by (rule retype_loop_done)
      then have "ys = xs'" using run by simp
      moreover have "xs ! i = f" using ieq True "1.prems"(4) by simp
      moreover have "xs' ! n = (if i = n then set_last f (py_str pm v) else f)"
        using \<open>xs ! i = f\<close> "1.prems"(2,4) ile True by (auto simp: xs'_def)
      ultimately show ?thesis using cast by auto
    next
      case False
      then have jn: "Suc j \<le> n" using "1.prems"(3) by simp
      have len: "Suc n = length xs'" using "1.prems"(2) by (simp add: xs'_def)
      have keep: "xs' ! n = f" using "1.prems"(4) ile jn by (simp add: xs'_def)
      show ?thesis
        by (rule "1.IH"(1)[OF jlt ne same i_def cast, folded xs'_def, OF run len jn keep "1.prems"(5)])
    qed
  qed
qed

lemma prepared_clause_of:
  "prepared pm s col oper v = clause_of (filter_type s) col oper (py_str pm (typed_value pm s v))"
  by (simp add: prepared_def clause_of_def)

lemma set_last_clause_of: "set_last (clause_of key col oper x) u = clause_of key col oper u"
  by (simp add: clause_of_def set_last_def)

lemma last_clause_of: "last (clause_of key col oper x) = x"
  by (simp add: clause_of_def)

lemma added_last:
  assumes "added cm pm col oper v s"
  defines "s' \<equiv> fst (add_filter cm pm col oper (Some v) s)"
  defines "x \<equiv> py_str pm (typed_value pm s v)"
  shows "\<exists>v'. val_as_col_dtype pm (post s') x col = Inr v'
           \<and> (st_list s' (filter_type s) ! length (st_list s (filter_type s)) = clause_of (filter_type s) col oper x
              \<or> st_list s' (filter_type s) ! length (st_list s (filter_type s)) = clause_of (filter_type s) col oper (py_str pm v'))"
proof -
  let ?s0 = "cast_report pm s v"
  let ?f = "prepared pm s col oper v"
  let ?key = "filter_type s"
  let ?L = "st_list s ?key @ [?f]"
  have s0: "st_list ?s0 = st_list s" "filter_type ?s0 = filter_type s"
    using cast_report_frame[of pm s v] by simp_all
  have nd: "?f \<notin> set (st_list s ?key)" and ok: "snd (try_add cm pm ?f ?s0) = None"
    using assms(1) by (simp_all add: added_def)
  have af: "add_filter cm pm col oper (Some v) s = (fst (try_add cm pm ?f ?s0), None)"
    using nd ok s0 by (cases "try_add cm pm ?f ?s0") (simp add: add_filter_def Let_def)
  obtain s3 e3 where sh:
     "st_list s3 = (st_list ?s0)(filter_type ?s0 := st_list ?s0 (filter_type ?s0) @ [?f])"
     "case e3 of
          Some e \<Rightarrow> try_add cm pm ?f ?s0 = (s3, Some e)
        | None \<Rightarrow> try_add cm pm ?f ?s0 =
            (store_list (filter_type ?s0) (fst (retype_loop pm (post s3) (hd ?f) 0 (st_list s3 (filter_type ?s0)))) s3,
             snd (retype_loop pm (post s3) (hd ?f) 0 (st_list s3 (filter_type ?s0))))"
    using try_add_shape[of cm pm ?s0 ?f] by blast
  have e3: "e3 = None" using sh(2) ok by (cases e3) auto
  have l3: "st_list s3 ?key = ?L" using sh(1) s0 by simp
  define ys where "ys = fst (retype_loop pm (post s3) col 0 ?L)"
  have t: "try_add cm pm ?f ?s0 = (store_list ?key ys s3, snd (retype_loop pm (post s3) col 0 ?L))"
    using sh(2) e3 l3 s0 by (simp add: hd_prepared ys_def)
  have loop: "retype_loop pm (post s3) col 0 ?L = (ys, None)"
    using t ok by (simp add: ys_def prod_eq_iff)
  have s': "st_list s' ?key = ys" "post s' = post s3"
    using af t by (simp_all add: s'_def store_list_def)
  have "\<exists>v'. val_as_col_dtype pm (post s3) (last ?f) col = Inr v'
            \<and> (ys ! length (st_list s ?key) = ?f \<or> ys ! length (st_list s ?key) = set_last ?f (py_str pm v'))"
    by (rule retype_loop_last[OF loop]) (simp_all add: hd_prepared)
  then show ?thesis
    using s' by (simp add: prepared_clause_of set_last_clause_of last_clause_of x_def)
qed


lemma demo_cast_stable: "demo_cast t w = Inr v \<Longrightarrow> demo_cast t v = Inr v"
  by (auto simp: demo_cast_def split: if_splits option.splits)

lemma demo_val_as_col_dtype:
  "val_as_col_dtype demo_pm p w col
     = (case map_of (df p) col of None \<Rightarrow> Inl KeyError | Some (t, cells) \<Rightarrow> demo_cast t w)"
  by (simp add: demo_pm_def)

lemma demo_py_str: "py_str demo_pm v = v"
  by (simp add: demo_pm_def)

lemma demo_cast_stable_col:
  assumes "df p = [(col, t, cells)]"
  shows "cast_stable demo_pm p col"
  unfolding cast_stable_def demo_val_as_col_dtype demo_py_str assms
  by (auto dest: demo_cast_stable)

section \<open>Duplicate filters\<close>




section \<open>The retyping pass\<close>

text \<open>
  C1, as the code has it. Whatever is added, the lists of the two other kinds keep their
  clauses: the retyping loop runs over \<^verbatim>\<open>state[key]\<close> alone. When the add succeeds,
  every clause that was in the list of the new filter's kind keeps its column and its
  operator, and is kept whole when it is on another column than the new filter's. When,
  besides, the cast of the column is stable, every such clause on the new filter's
  column stores \<^verbatim>\<open>str\<close> of its own stored value cast through the dtype of the column.
\<close>

theorem add_filter_retypes_own_list:
  "(\<forall>k. k \<noteq> filter_type s \<longrightarrow> st_list (fst (add_filter cm pm col oper val s)) k = st_list s k)
   \<and> (added cm pm col oper v s \<longrightarrow>
        (\<forall>k<length (st_list s (filter_type s)).
            butlast (st_list (fst (add_filter cm pm col oper (Some v) s)) (filter_type s) ! k)
              = butlast (st_list s (filter_type s) ! k)
          \<and> (hd (st_list s (filter_type s) ! k) \<noteq> col \<longrightarrow>
               st_list (fst (add_filter cm pm col oper (Some v) s)) (filter_type s) ! k
                 = st_list s (filter_type s) ! k)
          \<and> (hd (st_list s (filter_type s) ! k) = col
              \<and> cast_stable pm (post (fst (add_filter cm pm col oper (Some v) s))) col \<longrightarrow>
               (\<exists>w. val_as_col_dtype pm (post (fst (add_filter cm pm col oper (Some v) s)))
                       (last (st_list s (filter_type s) ! k)) col = Inr w
                  \<and> st_list (fst (add_filter cm pm col oper (Some v) s)) (filter_type s) ! k
                      = set_last (st_list s (filter_type s) ! k) (py_str pm w)))))"
proof (intro conjI allI impI)
  fix k assume "k \<noteq> filter_type s"
  then show "st_list (fst (add_filter cm pm col oper val s)) k = st_list s k"
    by (rule add_filter_other_lists)
next
  fix k
  assume a: "added cm pm col oper v s" and k: "k < length (st_list s (filter_type s))"
  let ?L = "st_list s (filter_type s) @ [prepared pm s col oper v]"
  let ?new = "st_list (fst (add_filter cm pm col oper (Some v) s)) (filter_type s)"
  have kL: "k < length ?L" "?L ! k = st_list s (filter_type s) ! k"
    using k by (simp_all add: nth_append)
  have kn: "k < length ?new" using added_result(2)[OF a] kL(1) by simp
  have "map butlast ?new ! k = map butlast ?L ! k"
    using added_result(3)[OF a] by (simp only:)
  then have "butlast (?new ! k) = butlast (?L ! k)"
    using kn kL(1) by (simp only: nth_map)
  then show "butlast (?new ! k) = butlast (st_list s (filter_type s) ! k)"
    by (simp only: kL(2))
  {
    assume "hd (st_list s (filter_type s) ! k) \<noteq> col"
    then show "?new ! k = st_list s (filter_type s) ! k"
      using added_result(4)[OF a, rule_format, OF kL(1)] kL(2) by simp
  }
  {
    assume "hd (st_list s (filter_type s) ! k) = col
              \<and> cast_stable pm (post (fst (add_filter cm pm col oper (Some v) s))) col"
    then show "\<exists>w. val_as_col_dtype pm (post (fst (add_filter cm pm col oper (Some v) s)))
                       (last (st_list s (filter_type s) ! k)) col = Inr w
                  \<and> ?new ! k = set_last (st_list s (filter_type s) ! k) (py_str pm w)"
      using added_exact[OF a _ k] by blast
  }
qed

text \<open>
  Adding \<^verbatim>\<open>c == 2\<close> as a float to the AND list when both lists hold \<^verbatim>\<open>c == 1\<close>: the
  AND clause becomes \<^verbatim>\<open>c == 1.0\<close>, the re-cast of its own value \<^verbatim>\<open>1\<close>, and the OR list
  is what it was.
\<close>

theorem add_filter_retypes_own_list_witness:
  "added demo_cm demo_pm ''c'' ''=='' ''2'' demo_retype
   \<and> cast_stable demo_pm (post (fst (add_filter demo_cm demo_pm ''c'' ''=='' (Some ''2'') demo_retype))) ''c''
   \<and> st_list demo_retype And ! 0 = [''c'', ''=='', ''1'']
   \<and> st_list (fst (add_filter demo_cm demo_pm ''c'' ''=='' (Some ''2'') demo_retype)) Or = st_list demo_retype Or
   \<and> (\<exists>w. val_as_col_dtype demo_pm (post (fst (add_filter demo_cm demo_pm ''c'' ''=='' (Some ''2'') demo_retype)))
              (last (st_list demo_retype And ! 0)) ''c'' = Inr w
         \<and> st_list (fst (add_filter demo_cm demo_pm ''c'' ''=='' (Some ''2'') demo_retype)) And ! 0
             = set_last (st_list demo_retype And ! 0) (py_str demo_pm w))
   \<and> st_list (fst (add_filter demo_cm demo_pm ''c'' ''=='' (Some ''2'') demo_retype)) And
        = [[''c'', ''=='', ''1.0''], [''c'', ''=='', ''2.0'']]"
proof -
  let ?s' = "fst (add_filter demo_cm demo_pm ''c'' ''=='' (Some ''2'') demo_retype)"
  have a: "added demo_cm demo_pm ''c'' ''=='' ''2'' demo_retype" by code_simp
  have ft: "filter_type demo_retype = And" by code_simp
  have k: "(0::nat) < length (st_list demo_retype And)" by code_simp
  have c0: "st_list demo_retype And ! 0 = [''c'', ''=='', ''1'']" by code_simp
  have h: "hd (st_list demo_retype And ! 0) = ''c''" by code_simp
  have d: "df (post ?s') = [(''c'', ''float64'', [''1.0'', ''2.0''])]" by code_simp
  have st: "cast_stable demo_pm (post ?s') ''c''"
    by (rule demo_cast_stable_col[OF d])
  have l: "st_list ?s' And = [[''c'', ''=='', ''1.0''], [''c'', ''=='', ''2.0'']]" by code_simp
  note t = add_filter_retypes_own_list[of demo_retype demo_cm demo_pm "''c''" "''==''" "Some ''2''" "''2''"]
  have o: "st_list ?s' Or = st_list demo_retype Or"
    using t ft by simp
  have r: "\<exists>w. val_as_col_dtype demo_pm (post ?s') (last (st_list demo_retype And ! 0)) ''c'' = Inr w
         \<and> st_list ?s' And ! 0 = set_last (st_list demo_retype And ! 0) (py_str demo_pm w)"
    using t a k h st unfolding ft by blast
  show ?thesis using a st c0 o r l by blast
qed

text \<open>
  C1 as the specification words it asks for the OR clause on \<^verbatim>\<open>c\<close> to be re-cast too. It is not:
  after the successful add it still stores \<^verbatim>\<open>1\<close>, while the cast of \<^verbatim>\<open>1\<close> through the
  column's dtype prints as \<^verbatim>\<open>1.0\<close>.
\<close>

theorem retyping_other_lists_counterexample:
  "added demo_cm demo_pm ''c'' ''=='' ''2'' demo_retype
   \<and> st_list demo_retype Or = [[''c'', ''=='', ''1'']]
   \<and> st_list (fst (add_filter demo_cm demo_pm ''c'' ''=='' (Some ''2'') demo_retype)) Or = [[''c'', ''=='', ''1'']]
   \<and> val_as_col_dtype demo_pm (post (fst (add_filter demo_cm demo_pm ''c'' ''=='' (Some ''2'') demo_retype))) ''1'' ''c''
        = Inr ''1.0''
   \<and> py_str demo_pm ''1.0'' \<noteq> ''1''"
  by code_simp

section \<open>Rolling back a failed add\<close>

text \<open>
  C2. The AND list holds \<^verbatim>\<open>c == 1\<close> and \<^verbatim>\<open>c == abc\<close>, both added while the column was
  typed as a string, and \<^verbatim>\<open>c == 2\<close> is added as a float. The loop re-casts the first
  clause to \<^verbatim>\<open>1.0\<close>, the cast of \<^verbatim>\<open>abc\<close> raises ValueError, and the handler removes
  the new clause only: the first clause keeps its new value and the column stays typed
  as a float, so the filter set is not the one the add started from.
\<close>

theorem add_filter_rollback_keeps_recast:
  "st_list demo_typed_str And = [[''c'', ''=='', ''1''], [''c'', ''=='', ''abc'']]
   \<and> prepared demo_pm demo_typed_str ''c'' ''=='' ''2'' \<notin> set (st_list demo_typed_str And)
   \<and> snd (try_add demo_cm demo_pm (prepared demo_pm demo_typed_str ''c'' ''=='' ''2'')
             (cast_report demo_pm demo_typed_str ''2'')) = Some ValueError
   \<and> snd (add_filter demo_cm demo_pm ''c'' ''=='' (Some ''2'') demo_typed_str) = None
   \<and> st_list (fst (add_filter demo_cm demo_pm ''c'' ''=='' (Some ''2'') demo_typed_str)) And
        = [[''c'', ''=='', ''1.0''], [''c'', ''=='', ''abc'']]
   \<and> ui (fst (add_filter demo_cm demo_pm ''c'' ''=='' (Some ''2'') demo_typed_str)) = [StException ValueError]
   \<and> column_types (config demo_typed_str) (Some ''c'') = Some ''str''
   \<and> column_types (config (fst (add_filter demo_cm demo_pm ''c'' ''=='' (Some ''2'') demo_typed_str))) (Some ''c'')
        = Some ''float''"
  by code_simp

section \<open>The value a filter is stored with\<close>


lemma update_types_ui: "\<exists>m. ui (fst (update_types cm pm s)) = ui s @ m"
  using on_config_frame[of "parse_columns cm" s]
        on_config_frame[of "remove_redundant_types cm" "fst (on_config (parse_columns cm) s)"]
  by (auto simp: update_types_def and_then_def clear_plot_def st_exception_def
           split: prod.splits option.splits)

lemma update_filter_ui: "\<exists>m. ui (fst (update_filter cm pm key s)) = ui s @ m"
proof -
  let ?s1 = "s\<lparr>config := bind_list key (st_list s key) (config s)\<rparr>"
  have a: "ui (fst (on_config (parse_filters cm) ?s1)) = ui s"
    using on_config_frame[of "parse_filters cm" ?s1] by simp
  show ?thesis
  proof (cases "snd (on_config (parse_filters cm) ?s1)")
    case None
    then have "update_filter cm pm key s = update_types cm pm (fst (on_config (parse_filters cm) ?s1))"
      by (cases "on_config (parse_filters cm) ?s1") (simp add: update_filter_def and_then_def)
    then show ?thesis using update_types_ui[of cm pm "fst (on_config (parse_filters cm) ?s1)"] a by simp
  next
    case (Some e)
    then have "update_filter cm pm key s = on_config (parse_filters cm) ?s1"
      by (cases "on_config (parse_filters cm) ?s1") (simp add: update_filter_def and_then_def)
    then show ?thesis using a by simp
  qed
qed

lemma try_add_ui: "\<exists>m. ui (fst (try_add cm pm f s)) = ui s @ m"
proof -
  let ?s2 = "s\<lparr>st_list := (st_list s)(filter_type s := st_list s (filter_type s) @ [f]),
         config := (config s)\<lparr>column_types := (column_types (config s))(Some (hd f) \<mapsto> filter_column_type s)\<rparr>\<rparr>"
  obtain m where m: "ui (fst (update_filter cm pm (filter_type s) ?s2)) = ui s @ m"
    using update_filter_ui[of cm pm "filter_type s" ?s2] by auto
  obtain s3 e3 where u: "update_filter cm pm (filter_type s) ?s2 = (s3, e3)"
    by (cases "update_filter cm pm (filter_type s) ?s2")
  have "ui (fst (try_add cm pm f s)) = ui s3"
    using u by (auto simp: try_add_def Let_def and_then_def store_list_def split: option.splits prod.splits)
  then show ?thesis using m u by simp
qed

text \<open>
  C5, as the code has it. The clause handed to the list is [column, operator, value], or
  [column, value] for a series, where the value is \<^verbatim>\<open>str\<close> of the author's value cast
  through the declared type when that cast returns, and \<^verbatim>\<open>str\<close> of the author's value
  itself, with the exception shown, when it raises. When the add succeeds the list is one
  clause longer, the prepared value casts through the dtype of the column, and the clause
  stored at the end is the prepared one or the prepared one with \<^verbatim>\<open>str\<close> of that second
  cast as its value.
\<close>

theorem added_filter_value:
  assumes "added cm pm col oper v s"
  shows "prepared pm s col oper v = clause_of (filter_type s) col oper (py_str pm (typed_value pm s v))
       \<and> (case val_as_dtype pm (post s) v (dict_get dtype_lookup (filter_column_type s)) of
            Inr w \<Rightarrow> typed_value pm s v = w
          | Inl e \<Rightarrow> typed_value pm s v = v
                     \<and> StException e \<in> set (ui (fst (add_filter cm pm col oper (Some v) s))))
       \<and> snd (add_filter cm pm col oper (Some v) s) = None
       \<and> length (st_list (fst (add_filter cm pm col oper (Some v) s)) (filter_type s))
           = Suc (length (st_list s (filter_type s)))
       \<and> (\<exists>v'. val_as_col_dtype pm (post (fst (add_filter cm pm col oper (Some v) s)))
                  (py_str pm (typed_value pm s v)) col = Inr v'
              \<and> (st_list (fst (add_filter cm pm col oper (Some v) s)) (filter_type s)
                    ! length (st_list s (filter_type s))
                    = clause_of (filter_type s) col oper (py_str pm (typed_value pm s v))
                  \<or> st_list (fst (add_filter cm pm col oper (Some v) s)) (filter_type s)
                    ! length (st_list s (filter_type s))
                    = clause_of (filter_type s) col oper (py_str pm v')))"
proof -
  let ?s0 = "cast_report pm s v"
  let ?f = "prepared pm s col oper v"
  have s0: "st_list ?s0 = st_list s" "filter_type ?s0 = filter_type s"
    using cast_report_frame[of pm s v] by simp_all
  have nd: "?f \<notin> set (st_list s (filter_type s))" and ok: "snd (try_add cm pm ?f ?s0) = None"
    using assms by (simp_all add: added_def)
  have af: "add_filter cm pm col oper (Some v) s = (fst (try_add cm pm ?f ?s0), None)"
    using nd ok s0 by (cases "try_add cm pm ?f ?s0") (simp add: add_filter_def Let_def)
  obtain m where m: "ui (fst (add_filter cm pm col oper (Some v) s)) = ui ?s0 @ m"
    using try_add_ui[of cm pm ?f ?s0] af by auto
  have c: "case val_as_dtype pm (post s) v (dict_get dtype_lookup (filter_column_type s)) of
            Inr w \<Rightarrow> typed_value pm s v = w
          | Inl e \<Rightarrow> typed_value pm s v = v
                     \<and> StException e \<in> set (ui (fst (add_filter cm pm col oper (Some v) s)))"
    using m by (simp add: typed_value_def cast_report_def st_exception_def split: sum.splits)
  have len: "length (st_list (fst (add_filter cm pm col oper (Some v) s)) (filter_type s))
           = Suc (length (st_list s (filter_type s)))"
    using added_result(2)[OF assms] by simp
  show ?thesis
    using prepared_clause_of[of pm s col oper v] c added_result(1)[OF assms] len added_last[OF assms]
    by blast
qed

text \<open>Adding \<^verbatim>\<open>c == 2\<close> as a float stores \<^verbatim>\<open>c == 2.0\<close> at the end of the AND list.\<close>

theorem added_filter_value_witness:
  "added demo_cm demo_pm ''c'' ''=='' ''2'' demo_retype
   \<and> prepared demo_pm demo_retype ''c'' ''=='' ''2'' = [''c'', ''=='', ''2.0'']
   \<and> val_as_dtype demo_pm (post demo_retype) ''2'' (dict_get dtype_lookup (filter_column_type demo_retype))
       = Inr ''2.0''
   \<and> (\<exists>v'. val_as_col_dtype demo_pm (post (fst (add_filter demo_cm demo_pm ''c'' ''=='' (Some ''2'') demo_retype)))
                  (py_str demo_pm (typed_value demo_pm demo_retype ''2'')) ''c'' = Inr v'
              \<and> (st_list (fst (add_filter demo_cm demo_pm ''c'' ''=='' (Some ''2'') demo_retype)) (filter_type demo_retype)
                    ! length (st_list demo_retype (filter_type demo_retype))
                    = clause_of (filter_type demo_retype) ''c'' ''=='' (py_str demo_pm (typed_value demo_pm demo_retype ''2''))
                  \<or> st_list (fst (add_filter demo_cm demo_pm ''c'' ''=='' (Some ''2'') demo_retype)) (filter_type demo_retype)
                    ! length (st_list demo_retype (filter_type demo_retype))
                    = clause_of (filter_type demo_retype) ''c'' ''=='' (py_str demo_pm v')))
   \<and> st_list (fst (add_filter demo_cm demo_pm ''c'' ''=='' (Some ''2'') demo_retype)) And ! 1
       = [''c'', ''=='', ''2.0'']"
proof -
  have a: "added demo_cm demo_pm ''c'' ''=='' ''2'' demo_retype" by code_simp
  have p: "prepared demo_pm demo_retype ''c'' ''=='' ''2'' = [''c'', ''=='', ''2.0'']" by code_simp
  have c: "val_as_dtype demo_pm (post demo_retype) ''2'' (dict_get dtype_lookup (filter_column_type demo_retype))
       = Inr ''2.0''" by code_simp
  have l: "st_list (fst (add_filter demo_cm demo_pm ''c'' ''=='' (Some ''2'') demo_retype)) And ! 1
       = [''c'', ''=='', ''2.0'']" by code_simp
  show ?thesis using added_filter_value[OF a] a p c l by blast
qed

text \<open>
  C5 as the specification words it has every added value cast through the declared type. On a column
  of words, \<^verbatim>\<open>c == abc\<close> added with the type int is added all the same: the cast to
  Int64 raises, the column cannot be converted and stays a string column, and the clause
  is stored with the value \<^verbatim>\<open>abc\<close> that no cast through int produced.
\<close>

theorem filter_value_cast_once_counterexample:
  "added demo_cm demo_pm ''c'' ''=='' ''abc'' demo_words
   \<and> val_as_dtype demo_pm (post demo_words) ''abc'' (dict_get dtype_lookup (filter_column_type demo_words))
       = Inl ValueError
   \<and> st_list (fst (add_filter demo_cm demo_pm ''c'' ''=='' (Some ''abc'') demo_words)) And
       = [[''c'', ''=='', ''abc'']]
   \<and> ui (fst (add_filter demo_cm demo_pm ''c'' ''=='' (Some ''abc'') demo_words))
       = [StException ValueError, StException ValueError]"
  by code_simp

(*PROOFS*)
section \<open>The axes\<close>

lemma dict_get_set: "dict_get (dict_set k v d) k' = (if k' = k then Some v else dict_get d k')"
  by (simp add: dict_get_def dict_set_def update_conv')

lemma exclusive_units_of: "exclusive (Some (units_of custom column))"
  by (simp add: exclusive_def units_of_def populated_def dict_get_def)

lemma exclusive_custom: "exclusive (Some (PDict [(''custom'', v)]))"
  by (simp add: exclusive_def populated_def dict_get_def)

lemma exclusive_scaling_column: "exclusive (Some (scaling_column pm s idx))"
  by (simp add: exclusive_def populated_def dict_get_def scaling_column_def)

text \<open>The three entries the assignments leave in the axis dicts.\<close>

lemma assign_axes_units:
  "dict_get (x_axis (config (fst (assign_axes pm s)))) ''units''
     = Some (units_of (x_axis_units_custom s) (x_axis_units_column s))
   \<and> dict_get (y_axis (config (fst (assign_axes pm s)))) ''units''
     = Some (units_of (y_axis_units_custom s) (y_axis_units_column s))"
  by (simp add: assign_axes_def Let_def dict_get_set split: sum.splits)

lemma assign_axes_scaling:
  "dict_get (y_axis (config (fst (assign_axes pm s)))) ''scaling''
     = Some (if \<not> truthy_str (y_axis_custom_scaling_val s) \<and> truthy_str (y_axis_scaling_column s) then
               (case series_index (series_filters (config s)) (y_axis_scaling_series s) of
                  Inl e \<Rightarrow> PDict [(''custom'', PNone)]
                | Inr idx \<Rightarrow> scaling_column pm s idx)
             else PDict [(''custom'', if truthy_str (y_axis_custom_scaling_val s)
                                      then of_opt (y_axis_custom_scaling_val s) else PNone)])"
  by (simp add: assign_axes_def Let_def dict_get_set split: sum.splits)

lemma assign_axes_exclusive: "axes_exclusive (config (fst (assign_axes pm s)))"
  unfolding axes_exclusive_def
  using assign_axes_units[of pm s] assign_axes_scaling[of pm s]
  by (simp add: exclusive_units_of exclusive_custom exclusive_scaling_column split: sum.splits)

lemma on_config_axes:
  assumes "keeps_axes m"
  shows "x_axis (config (fst (on_config m s))) = x_axis (config s)
       \<and> y_axis (config (fst (on_config m s))) = y_axis (config s)"
  using assms[unfolded keeps_axes_def, rule_format, of "config s"]
  by (cases "m (config s)") (simp add: on_config_def)

lemma update_types_axes:
  assumes "keeps_axes (parse_columns cm)" and "keeps_axes (remove_redundant_types cm)"
  shows "x_axis (config (fst (update_types cm pm s))) = x_axis (config s)
       \<and> y_axis (config (fst (update_types cm pm s))) = y_axis (config s)"
proof -
  let ?s1 = "fst (on_config (parse_columns cm) s)"
  let ?s2 = "fst (on_config (remove_redundant_types cm) ?s1)"
  have a: "x_axis (config ?s1) = x_axis (config s) \<and> y_axis (config ?s1) = y_axis (config s)"
    by (rule on_config_axes[OF assms(1)])
  have b: "x_axis (config ?s2) = x_axis (config ?s1) \<and> y_axis (config ?s2) = y_axis (config ?s1)"
    by (rule on_config_axes[OF assms(2)])
  have "config (fst (update_types cm pm s)) = config ?s1 \<or> config (fst (update_types cm pm s)) = config ?s2"
    by (auto simp: update_types_def and_then_def clear_plot_def st_exception_def
             split: prod.splits option.splits)
  then show ?thesis using a b by auto
qed

lemma update_axes_axes:
  assumes "keeps_axes (parse_scaling cm)" and "keeps_axes (parse_columns cm)"
      and "keeps_axes (remove_redundant_types cm)"
  shows "x_axis (config (fst (update_axes cm pm s))) = x_axis (config (fst (assign_axes pm s)))
       \<and> y_axis (config (fst (update_axes cm pm s))) = y_axis (config (fst (assign_axes pm s)))"
proof -
  let ?s1 = "fst (assign_axes pm s)"
  let ?s2 = "fst (on_config (parse_scaling cm) ?s1)"
  have a: "x_axis (config ?s2) = x_axis (config ?s1) \<and> y_axis (config ?s2) = y_axis (config ?s1)"
    by (rule on_config_axes[OF assms(1)])
  have b: "x_axis (config (fst (update_types cm pm ?s2))) = x_axis (config ?s2)
         \<and> y_axis (config (fst (update_types cm pm ?s2))) = y_axis (config ?s2)"
    by (rule update_types_axes[OF assms(2,3)])
  have "fst (update_axes cm pm s) = ?s1 \<or> fst (update_axes cm pm s) = ?s2
        \<or> fst (update_axes cm pm s) = fst (update_types cm pm ?s2)"
    by (auto simp: update_axes_def and_then_def split: prod.splits option.splits)
  then show ?thesis using a b by auto
qed

lemma keeps_axes_demo:
  "keeps_axes (parse_scaling demo_cm) \<and> keeps_axes (parse_columns demo_cm)
   \<and> keeps_axes (remove_redundant_types demo_cm)"
  by (simp add: keeps_axes_def demo_cm_def demo_parse_columns_def demo_remove_redundant_types_def Let_def)

text \<open>
  C3, as the code has it. After the assignments of \<^verbatim>\<open>update_axes\<close> no units or scaling
  dict has both its custom and its column alternative populated, also when the look-up
  of the series raises. Each dict has one key: a custom value that is given is stored
  alone, whether or not a column is selected; the column is stored, alone, only when no
  custom value is given and a column is selected (and, for the scaling, the look-up of
  the series raises nothing); otherwise the dict is the custom one. When the methods of
  the configuration that follow leave the axis dicts alone, the whole of
  \<^verbatim>\<open>update_axes\<close> leaves the same dicts.
\<close>

theorem update_axes_exclusive:
  "axes_exclusive (config (fst (assign_axes pm s)))
   \<and> dict_get (x_axis (config (fst (assign_axes pm s)))) ''units''
       = Some (if \<not> truthy_str (x_axis_units_custom s) \<and> truthy_str (x_axis_units_column s)
               then PDict [(''column'', of_opt (x_axis_units_column s))]
               else PDict [(''custom'', of_opt (x_axis_units_custom s))])
   \<and> dict_get (y_axis (config (fst (assign_axes pm s)))) ''units''
       = Some (if \<not> truthy_str (y_axis_units_custom s) \<and> truthy_str (y_axis_units_column s)
               then PDict [(''column'', of_opt (y_axis_units_column s))]
               else PDict [(''custom'', of_opt (y_axis_units_custom s))])
   \<and> dict_get (y_axis (config (fst (assign_axes pm s)))) ''scaling''
       = Some (if truthy_str (y_axis_custom_scaling_val s)
               then PDict [(''custom'', of_opt (y_axis_custom_scaling_val s))]
               else if truthy_str (y_axis_scaling_column s) then
                 (case series_index (series_filters (config s)) (y_axis_scaling_series s) of
                    Inl e \<Rightarrow> PDict [(''custom'', PNone)]
                  | Inr idx \<Rightarrow>
                      PDict [(''column'',
                        PDict [(''name'', of_opt (y_axis_scaling_column s)), (''series'', idx),
                               (''x_value'', PStr (str_of pm (y_axis_scaling_x_value s)))])])
               else PDict [(''custom'', PNone)])
   \<and> (keeps_axes (parse_scaling cm) \<and> keeps_axes (parse_columns cm)
        \<and> keeps_axes (remove_redundant_types cm)
      \<longrightarrow> x_axis (config (fst (update_axes cm pm s))) = x_axis (config (fst (assign_axes pm s)))
          \<and> y_axis (config (fst (update_axes cm pm s))) = y_axis (config (fst (assign_axes pm s)))
          \<and> axes_exclusive (config (fst (update_axes cm pm s))))"
proof (intro conjI impI)
  show "axes_exclusive (config (fst (assign_axes pm s)))" by (rule assign_axes_exclusive)
next
  show "dict_get (x_axis (config (fst (assign_axes pm s)))) ''units''
       = Some (if \<not> truthy_str (x_axis_units_custom s) \<and> truthy_str (x_axis_units_column s)
               then PDict [(''column'', of_opt (x_axis_units_column s))]
               else PDict [(''custom'', of_opt (x_axis_units_custom s))])"
    using assign_axes_units[of pm s] by (simp add: units_of_def)
next
  show "dict_get (y_axis (config (fst (assign_axes pm s)))) ''units''
       = Some (if \<not> truthy_str (y_axis_units_custom s) \<and> truthy_str (y_axis_units_column s)
               then PDict [(''column'', of_opt (y_axis_units_column s))]
               else PDict [(''custom'', of_opt (y_axis_units_custom s))])"
    using assign_axes_units[of pm s] by (simp add: units_of_def)
next
  show "dict_get (y_axis (config (fst (assign_axes pm s)))) ''scaling''
       = Some (if truthy_str (y_axis_custom_scaling_val s)
               then PDict [(''custom'', of_opt (y_axis_custom_scaling_val s))]
               else if truthy_str (y_axis_scaling_column s) then
                 (case series_index (series_filters (config s)) (y_axis_scaling_series s) of
                    Inl e \<Rightarrow> PDict [(''custom'', PNone)]
                  | Inr idx \<Rightarrow>
                      PDict [(''column'',
                        PDict [(''name'', of_opt (y_axis_scaling_column s)), (''series'', idx),
                               (''x_value'', PStr (str_of pm (y_axis_scaling_x_value s)))])])
               else PDict [(''custom'', PNone)])"
    using assign_axes_scaling[of pm s] by (simp add: scaling_column_def split: sum.splits)
next
  assume k: "keeps_axes (parse_scaling cm) \<and> keeps_axes (parse_columns cm)
        \<and> keeps_axes (remove_redundant_types cm)"
  then have same: "x_axis (config (fst (update_axes cm pm s))) = x_axis (config (fst (assign_axes pm s)))
       \<and> y_axis (config (fst (update_axes cm pm s))) = y_axis (config (fst (assign_axes pm s)))"
    using update_axes_axes by blast
  show "x_axis (config (fst (update_axes cm pm s))) = x_axis (config (fst (assign_axes pm s)))"
    using same by simp
  show "y_axis (config (fst (update_axes cm pm s))) = y_axis (config (fst (assign_axes pm s)))"
    using same by simp
  show "axes_exclusive (config (fst (update_axes cm pm s)))"
    using same assign_axes_exclusive[of pm s] by (simp add: axes_exclusive_def)
qed

text \<open>
  With no custom scaling value and the scaling column \<^verbatim>\<open>c\<close>, the scaling is stored as
  the column alone, and the whole of \<^verbatim>\<open>update_axes\<close> leaves it so.
\<close>

theorem update_axes_exclusive_witness:
  "keeps_axes (parse_scaling demo_cm) \<and> keeps_axes (parse_columns demo_cm)
   \<and> keeps_axes (remove_redundant_types demo_cm)
   \<and> axes_exclusive (config (fst (update_axes demo_cm demo_pm demo_scaling)))
   \<and> y_axis (config (fst (update_axes demo_cm demo_pm demo_scaling)))
       = y_axis (config (fst (assign_axes demo_pm demo_scaling)))
   \<and> dict_get (y_axis (config (fst (assign_axes demo_pm demo_scaling)))) ''scaling''
       = Some (PDict [(''column'',
                 PDict [(''name'', PStr ''c''), (''series'', PNone), (''x_value'', PStr ''None'')])])"
proof -
  have a: "\<not> truthy_str (y_axis_custom_scaling_val demo_scaling)" by code_simp
  have b: "truthy_str (y_axis_scaling_column demo_scaling)" by code_simp
  have c: "series_index (series_filters (config demo_scaling)) (y_axis_scaling_series demo_scaling) = Inr PNone"
    by code_simp
  have d: "of_opt (y_axis_scaling_column demo_scaling) = PStr ''c''" by code_simp
  have e: "str_of demo_pm (y_axis_scaling_x_value demo_scaling) = ''None''" by code_simp
  note t = update_axes_exclusive[of demo_pm demo_scaling demo_cm]
  have sc: "dict_get (y_axis (config (fst (assign_axes demo_pm demo_scaling)))) ''scaling''
       = Some (PDict [(''column'',
                 PDict [(''name'', PStr ''c''), (''series'', PNone), (''x_value'', PStr ''None'')])])"
    using t[THEN conjunct2, THEN conjunct2, THEN conjunct2, THEN conjunct1]
    by (simp only: a b c d e if_True if_False sum.case)
  show ?thesis
    using t[THEN conjunct2, THEN conjunct2, THEN conjunct2, THEN conjunct2] keeps_axes_demo sc
    by blast
qed

text \<open>
  C3 as the specification words it has a column that is set clear the custom value. With
  a custom scaling value of 2 and the scaling column \<^verbatim>\<open>c\<close> both given, and a custom
  units text next to a units column, the custom values are what is stored and the
  columns are ignored.
\<close>

theorem update_axes_column_counterexample:
  "truthy_str (y_axis_scaling_column demo_custom)
   \<and> truthy_str (x_axis_units_column demo_custom)
   \<and> snd (update_axes demo_cm demo_pm demo_custom) = None
   \<and> dict_get (y_axis (config (fst (update_axes demo_cm demo_pm demo_custom)))) ''scaling''
       = Some (PDict [(''custom'', PStr ''2'')])
   \<and> dict_get (x_axis (config (fst (update_axes demo_cm demo_pm demo_custom)))) ''units''
       = Some (PDict [(''custom'', PStr ''s'')])"
  by code_simp

text \<open>
  C9. When no custom scaling value is given, a scaling column is selected and the look-up
  of the series raises nothing, the \<^verbatim>\<open>x_value\<close> stored with the scaling column is the
  string \<^verbatim>\<open>str\<close> gives for the selected x-axis value, and the string \<^verbatim>\<open>None\<close> when none
  is selected; after the whole of \<^verbatim>\<open>update_axes\<close> too, when the methods that follow
  leave the axis dicts alone.
\<close>

theorem update_axes_x_value_string:
  assumes "\<not> truthy_str (y_axis_custom_scaling_val s)" and "truthy_str (y_axis_scaling_column s)"
      and "series_index (series_filters (config s)) (y_axis_scaling_series s) = Inr idx"
  shows "stored_x_value (config (fst (assign_axes pm s)))
           = Some (PStr (str_of pm (y_axis_scaling_x_value s)))
       \<and> (y_axis_scaling_x_value s = None
          \<longrightarrow> stored_x_value (config (fst (assign_axes pm s))) = Some (PStr ''None''))
       \<and> (keeps_axes (parse_scaling cm) \<and> keeps_axes (parse_columns cm)
            \<and> keeps_axes (remove_redundant_types cm)
          \<longrightarrow> stored_x_value (config (fst (update_axes cm pm s)))
                = Some (PStr (str_of pm (y_axis_scaling_x_value s))))"
proof -
  have sc: "dict_get (y_axis (config (fst (assign_axes pm s)))) ''scaling'' = Some (scaling_column pm s idx)"
    using assign_axes_scaling[of pm s] assms by simp
  have a: "stored_x_value (config (fst (assign_axes pm s)))
           = Some (PStr (str_of pm (y_axis_scaling_x_value s)))"
    unfolding stored_x_value_def sc by (simp add: scaling_column_def dict_get_def)
  have b: "y_axis_scaling_x_value s = None
          \<longrightarrow> stored_x_value (config (fst (assign_axes pm s))) = Some (PStr ''None'')"
    using a by (simp add: str_of_def)
  have c: "keeps_axes (parse_scaling cm) \<and> keeps_axes (parse_columns cm)
            \<and> keeps_axes (remove_redundant_types cm)
          \<longrightarrow> stored_x_value (config (fst (update_axes cm pm s)))
                = Some (PStr (str_of pm (y_axis_scaling_x_value s)))"
  proof
    assume "keeps_axes (parse_scaling cm) \<and> keeps_axes (parse_columns cm)
            \<and> keeps_axes (remove_redundant_types cm)"
    then have "y_axis (config (fst (update_axes cm pm s))) = y_axis (config (fst (assign_axes pm s)))"
      using update_axes_axes by blast
    then show "stored_x_value (config (fst (update_axes cm pm s)))
                = Some (PStr (str_of pm (y_axis_scaling_x_value s)))"
      using a by (simp add: stored_x_value_def)
  qed
  show ?thesis using a b c by blast
qed

text \<open>With the scaling column \<^verbatim>\<open>c\<close> and no x-axis value selected, \<^verbatim>\<open>x_value\<close> is the string \<^verbatim>\<open>None\<close>.\<close>

theorem update_axes_x_value_string_witness:
  "\<not> truthy_str (y_axis_custom_scaling_val demo_scaling)
   \<and> truthy_str (y_axis_scaling_column demo_scaling)
   \<and> series_index (series_filters (config demo_scaling)) (y_axis_scaling_series demo_scaling) = Inr PNone
   \<and> y_axis_scaling_x_value demo_scaling = None
   \<and> stored_x_value (config (fst (update_axes demo_cm demo_pm demo_scaling))) = Some (PStr ''None'')"
proof -
  have a: "\<not> truthy_str (y_axis_custom_scaling_val demo_scaling)" by code_simp
  have b: "truthy_str (y_axis_scaling_column demo_scaling)" by code_simp
  have c: "series_index (series_filters (config demo_scaling)) (y_axis_scaling_series demo_scaling) = Inr PNone"
    by code_simp
  have d: "y_axis_scaling_x_value demo_scaling = None" by code_simp
  show ?thesis
    using update_axes_x_value_string[OF a b c, of demo_pm demo_cm] keeps_axes_demo a b c d
    by (simp add: str_of_def)
qed

(*PROOFS*)
section \<open>Extra columns\<close>

lemma length_remdups_distinct: "(length xs \<noteq> length (remdups xs)) = (\<not> distinct xs)"
proof -
  have "(length (remdups xs) = length xs) = distinct xs"
    by (simp only: length_remdups_eq remdups_id_iff_distinct)
  then show ?thesis by (simp only: eq_commute[of "length xs"])
qed

lemma on_config_extra:
  assumes "keeps_extra m"
  shows "extra_columns (config (fst (on_config m s))) = extra_columns (config s)
       \<and> ui (fst (on_config m s)) = ui s"
  using assms[unfolded keeps_extra_def, rule_format, of "config s"]
  by (cases "m (config s)") (simp add: on_config_def)

lemma keeps_extra_demo: "keeps_extra (parse_columns demo_cm)"
  by (simp add: keeps_extra_def demo_cm_def demo_parse_columns_def Let_def)

text \<open>
  C10. When \<^verbatim>\<open>parse_columns\<close> leaves \<^verbatim>\<open>extra_columns\<close> alone, \<^verbatim>\<open>add_extra_column\<close>
  appends the selected column exactly when it is not in \<^verbatim>\<open>extra_columns\<close> yet, so a list
  without duplicates stays without duplicates. A column that is among the plot columns
  draws the warning and is in \<^verbatim>\<open>extra_columns\<close> afterwards all the same.
\<close>

theorem add_extra_column_no_duplicate:
  assumes "keeps_extra (parse_columns cm)"
  shows "extra_columns (config (fst (add_extra_column cm s)))
           = (if extra_col s \<in> set (extra_columns (config s)) then extra_columns (config s)
              else extra_columns (config s) @ [extra_col s])
       \<and> (distinct (extra_columns (config s))
          \<longrightarrow> distinct (extra_columns (config (fst (add_extra_column cm s)))))
       \<and> (extra_col s \<in> set (plot_columns (config s))
          \<longrightarrow> StWarning ''Currently selected extra column is already present in the DataFrame mask.''
                \<in> set (ui (fst (add_extra_column cm s)))
              \<and> extra_col s \<in> set (extra_columns (config (fst (add_extra_column cm s)))))"
proof -
  define c where "c = config s"
  define w where "w = StWarning ''Currently selected extra column is already present in the DataFrame mask.''"
  define shown where "shown = plot_columns c @ extra_columns c @ [extra_col s]"
  define s1 where "s1 = (if length shown \<noteq> length (remdups shown)
             then st_warning ''Currently selected extra column is already present in the DataFrame mask.'' s
             else s)"
  define s2 where "s2 = s1\<lparr>config := c\<lparr>extra_columns := extra_columns c @ [extra_col s]\<rparr>\<rparr>"
  have res: "add_extra_column cm s =
               (if extra_col s \<notin> set (extra_columns c) then on_config (parse_columns cm) s2
                else (s1, None))"
    by (simp add: add_extra_column_def Let_def s2_def s1_def shown_def c_def)
  have keep: "extra_columns (config (fst (on_config (parse_columns cm) s2))) = extra_columns (config s2)
            \<and> ui (fst (on_config (parse_columns cm) s2)) = ui s2"
    by (rule on_config_extra[OF assms])
  have c1: "config s1 = c" by (simp add: s1_def st_warning_def c_def)
  have c2: "extra_columns (config s2) = extra_columns c @ [extra_col s]" "ui s2 = ui s1"
    by (simp_all add: s2_def)
  have a: "extra_columns (config (fst (add_extra_column cm s)))
           = (if extra_col s \<in> set (extra_columns c) then extra_columns c
              else extra_columns c @ [extra_col s])"
  proof (cases "extra_col s \<in> set (extra_columns c)")
    case True
    then show ?thesis using res c1 by simp
  next
    case False
    then show ?thesis using res keep c2 by simp
  qed
  have b: "distinct (extra_columns c)
          \<longrightarrow> distinct (extra_columns (config (fst (add_extra_column cm s))))"
    using a by simp
  have u: "ui (fst (add_extra_column cm s)) = ui s1"
  proof (cases "extra_col s \<in> set (extra_columns c)")
    case True
    then show ?thesis using res by simp
  next
    case False
    then show ?thesis using res keep c2 by simp
  qed
  have d: "extra_col s \<in> set (plot_columns c)
          \<longrightarrow> w \<in> set (ui (fst (add_extra_column cm s)))
              \<and> extra_col s \<in> set (extra_columns (config (fst (add_extra_column cm s))))"
  proof
    assume p: "extra_col s \<in> set (plot_columns c)"
    then have "\<not> distinct shown" by (simp add: shown_def)
    then have "length shown \<noteq> length (remdups shown)" by (rule iffD2[OF length_remdups_distinct])
    then have "w \<in> set (ui s1)" by (simp add: s1_def st_warning_def w_def)
    then show "w \<in> set (ui (fst (add_extra_column cm s)))
              \<and> extra_col s \<in> set (extra_columns (config (fst (add_extra_column cm s))))"
      using a u by simp
  qed
  show ?thesis using a b d unfolding c_def w_def by blast
qed

(*PROOFS*)
text \<open>The column \<^verbatim>\<open>c\<close> is plotted already: adding it as an extra column warns and adds it once.\<close>

theorem add_extra_column_no_duplicate_witness:
  "keeps_extra (parse_columns demo_cm)
   \<and> extra_col demo_plotted \<in> set (plot_columns (config demo_plotted))
   \<and> extra_columns (config demo_plotted) = []
   \<and> extra_columns (config (fst (add_extra_column demo_cm demo_plotted))) = [Some ''c'']
   \<and> StWarning ''Currently selected extra column is already present in the DataFrame mask.''
        \<in> set (ui (fst (add_extra_column demo_cm demo_plotted)))"
proof -
  have p: "extra_col demo_plotted \<in> set (plot_columns (config demo_plotted))" by code_simp
  have e: "extra_columns (config demo_plotted) = []" by code_simp
  have x: "extra_col demo_plotted = Some ''c''" by code_simp
  note t1 = add_extra_column_no_duplicate[OF keeps_extra_demo, of demo_plotted]
  have l1: "extra_columns (config (fst (add_extra_column demo_cm demo_plotted))) = [Some ''c'']"
    using t1[THEN conjunct1] by (simp only: e x) simp
  have w: "StWarning ''Currently selected extra column is already present in the DataFrame mask.''
        \<in> set (ui (fst (add_extra_column demo_cm demo_plotted)))"
    using t1[THEN conjunct2, THEN conjunct2] p by blast
  show ?thesis using keeps_extra_demo p e l1 w by blast
qed

(*PROOFS*)
section \<open>Running the post-processing again\<close>

text \<open>
  C6. The run is a collaborator that works from the working dataset and the
  configuration. Because \<^verbatim>\<open>rerun_post_processing\<close> first resets the working dataset to the
  original one, a second call right after the first leaves the post-processing object
  (dataset, mask and plot) exactly as the first did, the configuration is not touched,
  and with a valid configuration the result does not depend on what the working dataset
  was before the call.
\<close>

theorem rerun_post_processing_idempotent:
  "post (rerun_post_processing cm pm (rerun_post_processing cm pm s))
     = post (rerun_post_processing cm pm s)
   \<and> config (rerun_post_processing cm pm s) = config s
   \<and> original_df (post (rerun_post_processing cm pm s)) = original_df (post s)
   \<and> (read_config cm (config s) = None
      \<longrightarrow> post (rerun_post_processing cm pm (s\<lparr>post := (post s)\<lparr>df := d\<rparr>\<rparr>))
            = post (rerun_post_processing cm pm s))"
proof -
  let ?r = "run_post_processing pm (original_df (post s)) (config s)"
  have cfg: "config (rerun_post_processing cm pm s) = config s"
    by (auto simp: rerun_post_processing_def Let_def clear_plot_def st_exception_def
             split: option.splits)
  have od: "original_df (post (rerun_post_processing cm pm s)) = original_df (post s)"
    by (cases ?r)
       (auto simp: rerun_post_processing_def Let_def clear_plot_def st_exception_def write_run_def
             split: option.splits)
  have idem: "post (rerun_post_processing cm pm (rerun_post_processing cm pm s))
     = post (rerun_post_processing cm pm s)"
  proof (cases "read_config cm (config s)")
    case (Some e)
    then show ?thesis
      by (simp add: rerun_post_processing_def clear_plot_def st_exception_def)
  next
    case None
    obtain dd m pl e where r: "?r = (dd, m, pl, e)" by (cases ?r) auto
    show ?thesis
    proof (cases e)
      case None
      with \<open>read_config cm (config s) = None\<close> r show ?thesis
        by (simp add: rerun_post_processing_def Let_def write_run_def split: option.splits)
    next
      case (Some x)
      with \<open>read_config cm (config s) = None\<close> r show ?thesis
        by (simp add: rerun_post_processing_def Let_def write_run_def clear_plot_def st_exception_def
                 split: option.splits)
    qed
  qed
  have reset: "read_config cm (config s) = None
      \<longrightarrow> post (rerun_post_processing cm pm (s\<lparr>post := (post s)\<lparr>df := d\<rparr>\<rparr>))
            = post (rerun_post_processing cm pm s)"
    by (cases ?r)
       (auto simp: rerun_post_processing_def Let_def write_run_def clear_plot_def st_exception_def
             split: option.splits)
  show ?thesis using idem cfg od reset by blast
qed

text \<open>
  On the session of the examples, after a float filter has turned the column into
  floats: both runs start from the original strings and end in the same object.
\<close>

theorem rerun_post_processing_idempotent_witness:
  "read_config demo_cm (config (fst (add_filter demo_cm demo_pm ''c'' ''=='' (Some ''2'') demo))) = None
   \<and> df (post (fst (add_filter demo_cm demo_pm ''c'' ''=='' (Some ''2'') demo)))
       = [(''c'', ''float64'', [''1.0'', ''2.0''])]
   \<and> post (rerun_post_processing demo_cm demo_pm
             (rerun_post_processing demo_cm demo_pm
                (fst (add_filter demo_cm demo_pm ''c'' ''=='' (Some ''2'') demo))))
       = post (rerun_post_processing demo_cm demo_pm
                 (fst (add_filter demo_cm demo_pm ''c'' ''=='' (Some ''2'') demo)))
   \<and> original_df (post (rerun_post_processing demo_cm demo_pm
                (fst (add_filter demo_cm demo_pm ''c'' ''=='' (Some ''2'') demo))))
       = [(''c'', ''object'', [''1'', ''2''])]"
proof -
  let ?s = "fst (add_filter demo_cm demo_pm ''c'' ''=='' (Some ''2'') demo)"
  have a: "read_config demo_cm (config ?s) = None" by code_simp
  have b: "df (post ?s) = [(''c'', ''float64'', [''1.0'', ''2.0''])]" by code_simp
  have c: "original_df (post ?s) = [(''c'', ''object'', [''1'', ''2''])]" by code_simp
  show ?thesis
    using rerun_post_processing_idempotent[of demo_cm demo_pm ?s] a b c by simp
qed

section \<open>The mask of an empty filter set\<close>

lemma map2_and_all_true: "map2 (\<and>) (all_true rows) (all_true rows) = all_true rows"
  by (induction rows) (simp_all add: all_true_def)

text \<open>
  C7. On the filter engine as the specification describes it: with no AND clause, no OR
  clause and no series the mask is true on every row, and the empty OR list gives the
  same all-true result as the empty AND list.
\<close>

theorem evaluate_no_filters:
  "evaluate cast holds rows [] [] [] = Inr (replicate (length rows) True)
   \<and> or_result cast holds rows [] = Inr (replicate (length rows) True)
   \<and> or_result cast holds rows [] = and_result cast holds rows []"
  using map2_and_all_true[of rows]
  by (simp add: evaluate_def or_result_def and_result_def) (simp add: all_true_def)

text \<open>On two rows, with a cast that always raises: no clause is cast, and the mask is [True, True].\<close>

theorem evaluate_no_filters_witness:
  "evaluate (\<lambda>col stored. Inl ValueError) (\<lambda>oper (x::string) y. x = y)
      [(\<lambda>col. ''1''), (\<lambda>col. ''2'')] [] [] [] = Inr [True, True]"
  using evaluate_no_filters[of "\<lambda>col stored. Inl ValueError" "\<lambda>oper (x::string) y. x = y"
          "[(\<lambda>col. ''1''), (\<lambda>col. ''2'')]"]
  by (simp add: numeral_2_eq_2)

(*PROOFS*)
section \<open>Uploading a configuration\<close>

text \<open>
  C8, as the code has it. When the uploaded document loads and building the
  configuration from it raises, the exception is shown and the plot is cleared. The
  configuration becomes the one built from the same document in template mode when that
  succeeds; when that raises as well, the second exception is shown too and the
  configuration stays the one the session had.
\<close>

theorem update_config_fallback:
  assumes "uploaded_config s = Some u" and "load_config cm u = Inr d"
      and "ConfigHandler cm d False = Inl e"
  shows "plot (post (update_config cm pm s)) = None
       \<and> ui (update_config cm pm s)
           = ui s @ StException e
               # (case ConfigHandler cm d True of Inl e' \<Rightarrow> [StException e'] | Inr c \<Rightarrow> [])
       \<and> config (update_config cm pm s)
           = (case ConfigHandler cm d True of Inl e' \<Rightarrow> config s | Inr c \<Rightarrow> c)"
  using assms
  by (simp add: update_config_def config_fallback_def Let_def clear_plot_def st_exception_def
           split: sum.splits)

text \<open>
  A document with a title and no axes: validation raises KeyError, which is shown, and
  the template form carries the title over.
\<close>

theorem update_config_fallback_witness:
  "uploaded_config (demo_upload ''title: Demo'') = Some ''title: Demo''
   \<and> load_config demo_cm ''title: Demo'' = Inr (PDict [(''title'', PStr ''Demo'')])
   \<and> ConfigHandler demo_cm (PDict [(''title'', PStr ''Demo'')]) False = Inl KeyError
   \<and> plot (post (update_config demo_cm demo_pm (demo_upload ''title: Demo''))) = None
   \<and> ui (update_config demo_cm demo_pm (demo_upload ''title: Demo'')) = [StException KeyError]
   \<and> title (config (update_config demo_cm demo_pm (demo_upload ''title: Demo''))) = Some ''Demo''"
proof -
  have a: "uploaded_config (demo_upload ''title: Demo'') = Some ''title: Demo''" by code_simp
  have b: "load_config demo_cm ''title: Demo'' = Inr (PDict [(''title'', PStr ''Demo'')])" by code_simp
  have c: "ConfigHandler demo_cm (PDict [(''title'', PStr ''Demo'')]) False = Inl KeyError"
    by (simp add: demo_cm_def demo_handler_def dict_get_def)
  have d: "ConfigHandler demo_cm (PDict [(''title'', PStr ''Demo'')]) True
             = Inr (demo_config\<lparr>title := Some ''Demo''\<rparr>)"
    by (simp add: demo_cm_def demo_handler_def dict_get_def)
  have u: "ui (demo_upload ''title: Demo'') = []" by code_simp
  show ?thesis
    using update_config_fallback[OF a b c, of demo_pm] a b c
    by (simp only: d u) simp
qed

text \<open>
  C8 as the specification words it has the session fall back to an empty template whenever the
  document fails validation. A document that is a plain string fails in both modes: two
  exceptions are shown and the configuration keeps its old title, so it is the previous
  configuration and not a template with every field empty.
\<close>

theorem update_config_template_counterexample:
  "load_config demo_cm ''hello'' = Inr (PStr ''hello'')
   \<and> ConfigHandler demo_cm (PStr ''hello'') False = Inl (Raised ''AttributeError'')
   \<and> ConfigHandler demo_cm (PStr ''hello'') True = Inl (Raised ''AttributeError'')
   \<and> title (config (demo_upload ''hello'')) = Some ''Old plot''
   \<and> title (config (update_config demo_cm demo_pm (demo_upload ''hello''))) = Some ''Old plot''
   \<and> ui (update_config demo_cm demo_pm (demo_upload ''hello''))
       = [StException (Raised ''AttributeError''), StException (Raised ''AttributeError'')]"
proof -
  have a: "load_config demo_cm ''hello'' = Inr (PStr ''hello'')" by code_simp
  have b: "ConfigHandler demo_cm (PStr ''hello'') False = Inl (Raised ''AttributeError'')"
    by (simp add: demo_cm_def demo_handler_def)
  have c: "ConfigHandler demo_cm (PStr ''hello'') True = Inl (Raised ''AttributeError'')"
    by (simp add: demo_cm_def demo_handler_def)
  have d: "title (config (demo_upload ''hello'')) = Some ''Old plot''" by code_simp
  have e: "title (config (update_config demo_cm demo_pm (demo_upload ''hello''))) = Some ''Old plot''"
    by code_simp
  have f: "ui (update_config demo_cm demo_pm (demo_upload ''hello''))
       = [StException (Raised ''AttributeError''), StException (Raised ''AttributeError'')]"
    by code_simp
  show ?thesis using a b c d e f by blast
qed

end
